theory Spec2Isabelle
  imports Complex_Main
begin

section \<open>Python floats\<close>

text \<open>
  A Python \<^verbatim>\<open>float\<close> is an IEEE 754 double. A finite double is modelled by the real
  number it stands for, and an arithmetic operation on doubles returns the exact result
  rounded to the nearest double, ties to the even significand: \<^verbatim>\<open>fl\<close>. A double has 53
  significant bits; below \<open>2 ^ (- 1022)\<close> the spacing of the doubles stays that of the
  smallest normal binade. Infinities and NaN, and so the overflow of a result beyond the
  largest double, are outside the model.
\<close>

definition round_half_even :: "real \<Rightarrow> int" where
  "round_half_even x =
     (let f = \<lfloor>x\<rfloor>; d = x - real_of_int f
      in if d < 1 / 2 then f else if 1 / 2 < d then f + 1 else if even f then f else f + 1)"

fun bit_length :: "nat \<Rightarrow> nat" where
  "bit_length n = (if n = 0 then 0 else Suc (bit_length (n div 2)))"

text \<open>The exponent \<open>e\<close> of a non-zero real \<open>x\<close>: \<open>2 ^ e \<le> \<bar>x\<bar> < 2 ^ (e + 1)\<close>.\<close>

definition float_exponent :: "real \<Rightarrow> int" where
  "float_exponent x =
     (if 1 \<le> \<bar>x\<bar> then int (bit_length (nat \<lfloor>\<bar>x\<bar>\<rfloor>)) - 1
      else - int (bit_length (nat (\<lceil>1 / \<bar>x\<bar>\<rceil> - 1))))"

definition pow2 :: "int \<Rightarrow> real" where
  "pow2 k = (if 0 \<le> k then 2 ^ nat k else 1 / 2 ^ nat (- k))"

definition fl :: "real \<Rightarrow> real" where
  "fl x =
     (if x = 0 then 0
      else let ulp = pow2 (max (float_exponent x) (- 1022) - 52)
           in real_of_int (round_half_even (x / ulp)) * ulp)"

text \<open>
  The builtin \<^verbatim>\<open>sum\<close> adds the numbers of a list in double precision. How it does so
  depends on the interpreter: CPython up to 3.11 adds from left to right and rounds
  every addition, which is \<^verbatim>\<open>float_sum\<close>; CPython from 3.12 on carries a compensation
  term. The functions that call \<^verbatim>\<open>sum\<close> therefore take the summation as their first
  argument \<^verbatim>\<open>py_sum\<close>, and what is proved of them for every \<^verbatim>\<open>py_sum\<close> holds for either
  interpreter.
\<close>

definition float_sum :: "real list \<Rightarrow> real" where
  "float_sum xs = foldl (\<lambda>s x. fl (s + x)) 0 xs"

section \<open>Interview engine: adaptive difficulty and early termination\<close>

text \<open>
  \<^verbatim>\<open>InterviewEngine\<close> (interview_engine.py) keeps three mutable attributes: the current
  difficulty (a Python string, initially \<^verbatim>\<open>'easy'\<close>), the question counter and the
  maximum number of questions. Scores are Python floats.
\<close>

record engine =
  current_difficulty :: string
  question_count :: int
  max_questions :: int

definition difficulty_levels :: "string list" where
  "difficulty_levels = [''easy'', ''medium'', ''hard'']"

definition question_types :: "string list" where
  "question_types = [''technical'', ''conceptual'', ''behavioral'', ''scenario-based'']"

definition new_engine :: engine where
  "new_engine = \<lparr>current_difficulty = ''easy'', question_count = 0, max_questions = 10\<rparr>"

text \<open>
  \<^verbatim>\<open>adjust_difficulty\<close> mutates \<^verbatim>\<open>self.current_difficulty\<close> and returns it; the model
  returns the updated engine, whose \<^const>\<open>current_difficulty\<close> is the returned value.
\<close>

definition adjust_difficulty :: "(real list \<Rightarrow> real) \<Rightarrow> engine \<Rightarrow> real list \<Rightarrow> engine" where
  "adjust_difficulty py_sum self recent_scores =
     (if recent_scores = [] then self
      else let avg_score = fl (py_sum recent_scores / real (length recent_scores)) in
        if avg_score > 75 then
          (if current_difficulty self = ''easy'' then self\<lparr>current_difficulty := ''medium''\<rparr>
           else if current_difficulty self = ''medium'' then self\<lparr>current_difficulty := ''hard''\<rparr>
           else self)
        else if avg_score < 40 then
          (if current_difficulty self = ''hard'' then self\<lparr>current_difficulty := ''medium''\<rparr>
           else if current_difficulty self = ''medium'' then self\<lparr>current_difficulty := ''easy''\<rparr>
           else self)
        else self)"

text \<open>
  \<^verbatim>\<open>recent_scores[-3:]\<close> is the suffix of length three; it is only read when the list
  has at least three elements.
\<close>

definition should_terminate_early :: "(real list \<Rightarrow> real) \<Rightarrow> real list \<Rightarrow> bool" where
  "should_terminate_early py_sum recent_scores =
     (if length recent_scores < 3 then False
      else let last_three = drop (length recent_scores - 3) recent_scores;
               avg_last_three = fl (py_sum last_three / 3)
           in avg_last_three < 30)"

section \<open>Scoring engine: time efficiency\<close>

text \<open>
  Python's \<^verbatim>\<open>int(x)\<close> on a float truncates towards zero.
\<close>

definition py_int :: "real \<Rightarrow> int" where
  "py_int x = (if 0 \<le> x then \<lfloor>x\<rfloor> else \<lceil>x\<rceil>)"

text \<open>
  \<^verbatim>\<open>ScoringEngine._calculate_time_score\<close>. This function is kept in exact arithmetic:
  the products \<^verbatim>\<open>max_time * 0.6\<close> and \<^verbatim>\<open>max_time * 0.8\<close> and the quotients are not
  rounded. For \<^verbatim>\<open>max_time = 60\<close>, which is what the endpoints pass, the float products
  are exactly 36.0 and 48.0 and the truncated results are those of the doubles; for
  other values of \<^verbatim>\<open>max_time\<close> the doubles can give another integer. No branch divides
  by zero: the ramp is reached only when
  \<^verbatim>\<open>0 < time_taken < optimal_min\<close>, the penalty only when
  \<^verbatim>\<open>optimal_max < time_taken <= max_time\<close>.
\<close>

definition calculate_time_score :: "int \<Rightarrow> int \<Rightarrow> int" where
  "calculate_time_score time_taken max_time =
     (if time_taken \<le> 0 then 0
      else let optimal_min = real_of_int max_time * (6 / 10);
               optimal_max = real_of_int max_time * (8 / 10)
           in if optimal_min \<le> real_of_int time_taken \<and> real_of_int time_taken \<le> optimal_max then 100
              else if real_of_int time_taken < optimal_min
                then py_int ((real_of_int time_taken / optimal_min) * 100)
              else if time_taken \<le> max_time
                then (let penalty = (real_of_int time_taken - optimal_max) / (real_of_int max_time - optimal_max)
                      in py_int (100 - penalty * 20))
              else max 0 (50 - py_int (real_of_int (time_taken - max_time) / 10)))"

section \<open>Python strings\<close>

text \<open>
  A Python \<^verbatim>\<open>str\<close> is modelled as a \<^typ>\<open>string\<close>, one \<^typ>\<open>char\<close> per character, and the
  character classes are those of the ASCII range: \<^verbatim>\<open>str.isspace\<close> and the regular
  expression class \<^verbatim>\<open>\s\<close> hold of the code points 9 to 13, 28 to 31 and 32;
  \<^verbatim>\<open>\w\<close> holds of letters, digits and the underscore; \<^verbatim>\<open>\d\<close> of the ten digits.
  Characters outside the ASCII range belong to no class and are left alone by
  \<^verbatim>\<open>lower\<close> and \<^verbatim>\<open>title\<close>.
\<close>

definition code_point :: "char \<Rightarrow> nat" where
  "code_point c = of_char c"

definition is_upper :: "char \<Rightarrow> bool" where
  "is_upper c = (65 \<le> code_point c \<and> code_point c \<le> 90)"

definition is_lower :: "char \<Rightarrow> bool" where
  "is_lower c = (97 \<le> code_point c \<and> code_point c \<le> 122)"

definition is_digit :: "char \<Rightarrow> bool" where
  "is_digit c = (48 \<le> code_point c \<and> code_point c \<le> 57)"

definition is_space :: "char \<Rightarrow> bool" where
  "is_space c = (code_point c = 32 \<or> (9 \<le> code_point c \<and> code_point c \<le> 13)
                 \<or> (28 \<le> code_point c \<and> code_point c \<le> 31))"

definition is_word :: "char \<Rightarrow> bool" where
  "is_word c = (is_upper c \<or> is_lower c \<or> is_digit c \<or> c = CHR ''_'')"

definition chr_lower :: "char \<Rightarrow> char" where
  "chr_lower c = (if is_upper c then char_of (code_point c + 32) else c)"

definition chr_upper :: "char \<Rightarrow> char" where
  "chr_upper c = (if is_lower c then char_of (code_point c - 32) else c)"

text \<open>\<^verbatim>\<open>s.lower()\<close>\<close>

definition str_lower :: "string \<Rightarrow> string" where
  "str_lower s = map chr_lower s"

text \<open>
  \<^verbatim>\<open>s.title()\<close>: a cased character is upper-cased when the character before it is not
  cased, and lower-cased otherwise.
\<close>

fun title_from :: "bool \<Rightarrow> string \<Rightarrow> string" where
  "title_from prev_cased [] = []"
| "title_from prev_cased (c # cs) =
     (if is_lower c then (if prev_cased then c else chr_upper c) # title_from True cs
      else if is_upper c then (if prev_cased then chr_lower c else c) # title_from True cs
      else c # title_from False cs)"

definition str_title :: "string \<Rightarrow> string" where
  "str_title s = title_from False s"

text \<open>\<^verbatim>\<open>s.replace(old, new)\<close> for single characters \<^verbatim>\<open>old\<close> and \<^verbatim>\<open>new\<close>.\<close>

definition replace_char :: "char \<Rightarrow> char \<Rightarrow> string \<Rightarrow> string" where
  "replace_char old new s = map (\<lambda>c. if c = old then new else c) s"

text \<open>\<^verbatim>\<open>s.startswith(p)\<close>, and the substring test \<^verbatim>\<open>p in s\<close>.\<close>

fun starts_with :: "string \<Rightarrow> string \<Rightarrow> bool" where
  "starts_with [] a = True"
| "starts_with (p # ps) [] = False"
| "starts_with (p # ps) (x # a) = (p = x \<and> starts_with ps a)"

fun contains :: "string \<Rightarrow> string \<Rightarrow> bool" where
  "contains p [] = starts_with p []"
| "contains p (x # a) = (starts_with p (x # a) \<or> contains p a)"

text \<open>\<^verbatim>\<open>s.strip()\<close> and \<^verbatim>\<open>s.split()\<close> (no argument: runs of white space separate the words).\<close>

definition str_strip :: "string \<Rightarrow> string" where
  "str_strip s = rev (dropWhile is_space (rev (dropWhile is_space s)))"

fun split_acc :: "string \<Rightarrow> string \<Rightarrow> string list" where
  "split_acc w [] = (if w = [] then [] else [rev w])"
| "split_acc w (c # cs) =
     (if is_space c then (if w = [] then split_acc [] cs else rev w # split_acc [] cs)
      else split_acc (c # w) cs)"

definition str_split :: "string \<Rightarrow> string list" where
  "str_split s = split_acc [] s"

text \<open>\<^verbatim>\<open>int(s)\<close> on a string of decimal digits, and \<^verbatim>\<open>str(n)\<close> on a natural number.\<close>

definition int_of_digits :: "string \<Rightarrow> nat" where
  "int_of_digits s = foldl (\<lambda>acc c. 10 * acc + (code_point c - 48)) 0 s"

fun show_nat :: "nat \<Rightarrow> string" where
  "show_nat n =
     (if n < 10 then [char_of (48 + n)]
      else show_nat (n div 10) @ [char_of (48 + n mod 10)])"

section \<open>Regular expressions\<close>

text \<open>
  The fragment of Python's \<^verbatim>\<open>re\<close> syntax that the repository's patterns use, with the
  semantics of a backtracking matcher: \<^verbatim>\<open>paths r st\<close> lists, in the order in which the
  matcher tries them, the states in which \<^verbatim>\<open>r\<close> can end when started in \<^verbatim>\<open>st\<close>. A
  state is the text captured by group 1 so far, the text before the current position
  (reversed) and the text after it. The first path is the match Python reports.
  \<^item> \<^verbatim>\<open>One\<close>: one character of a class (\<^verbatim>\<open>\d\<close>, \<^verbatim>\<open>\s\<close>, \<^verbatim>\<open>\w\<close>, \<^verbatim>\<open>[A-Z]\<close>, a literal);
  \<^item> \<^verbatim>\<open>Lit\<close>: a literal string (what \<^verbatim>\<open>re.escape\<close> produces a pattern for);
  \<^item> \<^verbatim>\<open>WordB\<close>: the assertion \<^verbatim>\<open>\b\<close>;
  \<^item> \<^verbatim>\<open>Seq\<close>, \<^verbatim>\<open>Alt\<close>: concatenation and \<^verbatim>\<open>|\<close>;
  \<^item> \<^verbatim>\<open>Opt\<close>: the greedy \<^verbatim>\<open>r?\<close>;
  \<^item> \<^verbatim>\<open>Rep n c\<close>: the greedy repetition \<^verbatim>\<open>c{n,}\<close> of a character class (\<^verbatim>\<open>c*\<close> is
    \<^verbatim>\<open>Rep 0 c\<close>, \<^verbatim>\<open>c+\<close> is \<^verbatim>\<open>Rep 1 c\<close>), longest first;
  \<^item> \<^verbatim>\<open>Group\<close>: the capturing group 1.
\<close>

datatype atom = Digit | Space | WordCh | UpperAZ | Ch char

fun in_atom :: "atom \<Rightarrow> char \<Rightarrow> bool" where
  "in_atom Digit c = is_digit c"
| "in_atom Space c = is_space c"
| "in_atom WordCh c = is_word c"
| "in_atom UpperAZ c = is_upper c"
| "in_atom (Ch d) c = (c = d)"

datatype regex =
    One atom
  | Lit string
  | WordB
  | Seq regex regex
  | Alt regex regex
  | Opt regex
  | Rep nat atom
  | Group regex

type_synonym mstate = "string option \<times> string \<times> string"

text \<open>
  \<^verbatim>\<open>\b\<close> holds where exactly one of the characters before and after the position is a
  word character; the two ends of the text count as non-word.
\<close>

definition at_boundary :: "string \<Rightarrow> string \<Rightarrow> bool" where
  "at_boundary prev rest =
     ((case prev of [] \<Rightarrow> False | p # _ \<Rightarrow> is_word p) \<noteq>
      (case rest of [] \<Rightarrow> False | n # _ \<Rightarrow> is_word n))"

fun paths :: "regex \<Rightarrow> mstate \<Rightarrow> mstate list" where
  "paths (One c) (g, b, a) =
     (case a of [] \<Rightarrow> [] | x # a' \<Rightarrow> if in_atom c x then [(g, x # b, a')] else [])"
| "paths (Lit s) (g, b, a) =
     (if starts_with s a then [(g, rev s @ b, drop (length s) a)] else [])"
| "paths WordB (g, b, a) = (if at_boundary b a then [(g, b, a)] else [])"
| "paths (Seq r s) st = concat (map (paths s) (paths r st))"
| "paths (Alt r s) st = paths r st @ paths s st"
| "paths (Opt r) st = paths r st @ [st]"
| "paths (Rep n c) (g, b, a) =
     (let k = length (takeWhile (in_atom c) a)
      in map (\<lambda>j. (g, rev (take j a) @ b, drop j a)) (rev [n ..< Suc k]))"
| "paths (Group r) (g, b, a) =
     map (\<lambda>(g', b', a'). (Some (take (length a - length a') a), b', a')) (paths r (g, b, a))"

definition match_at :: "regex \<Rightarrow> string \<Rightarrow> string \<Rightarrow> mstate option" where
  "match_at r b a = (case paths r (None, b, a) of [] \<Rightarrow> None | st # _ \<Rightarrow> Some st)"

text \<open>\<^verbatim>\<open>re.search\<close>: the match at the leftmost position that has one.\<close>

fun search_from :: "regex \<Rightarrow> string \<Rightarrow> string \<Rightarrow> mstate option" where
  "search_from r b [] = match_at r b []"
| "search_from r b (x # a) =
     (case match_at r b (x # a) of Some m \<Rightarrow> Some m | None \<Rightarrow> search_from r (x # b) a)"

definition re_search :: "regex \<Rightarrow> string \<Rightarrow> mstate option" where
  "re_search r text = search_from r [] text"

text \<open>
  \<^verbatim>\<open>re.findall\<close>: the non-overlapping matches from left to right, each as the pair of
  group 1 and the whole matched text. After a match the scan goes on behind it: the
  counter says how many characters of the last match are still to be passed over. (None
  of the repository's patterns matches the empty string.)
\<close>

fun findall_from :: "regex \<Rightarrow> string \<Rightarrow> string \<Rightarrow> nat \<Rightarrow> (string option \<times> string) list" where
  "findall_from r b [] skip =
     (case match_at r b [] of None \<Rightarrow> [] | Some (g, b', a') \<Rightarrow> [(g, [])])"
| "findall_from r b (x # a) (Suc skip) = findall_from r (x # b) a skip"
| "findall_from r b (x # a) 0 =
     (case match_at r b (x # a) of
        None \<Rightarrow> findall_from r (x # b) a 0
      | Some (g, b', a') \<Rightarrow>
          (g, take (length (x # a) - length a') (x # a)) #
            findall_from r (x # b) a (length (x # a) - length a' - 1))"

definition re_findall :: "regex \<Rightarrow> string \<Rightarrow> (string option \<times> string) list" where
  "re_findall r text = findall_from r [] text 0"

text \<open>
  The text of group 1: what \<^verbatim>\<open>findall\<close> returns for a match of a pattern with one
  group, and what \<^verbatim>\<open>match.group(1)\<close> returns.
\<close>

definition group1 :: "string option \<Rightarrow> string" where
  "group1 g = (case g of None \<Rightarrow> [] | Some t \<Rightarrow> t)"

section \<open>Resume and job-description parsers\<close>

text \<open>
  Both \<^verbatim>\<open>ResumeParser.__init__\<close> and \<^verbatim>\<open>JDParser.__init__\<close> build the same table
  \<^verbatim>\<open>self.tech_skills\<close>; a dictionary is an association list in insertion order.
\<close>

definition tech_skills :: "(string \<times> string list) list" where
  "tech_skills =
     [(''languages'', [''python'', ''java'', ''javascript'', ''typescript'', ''c++'', ''c#'', ''ruby'',
                       ''go'', ''rust'', ''php'', ''swift'', ''kotlin'', ''scala'', ''r'', ''matlab'']),
      (''frameworks'', [''react'', ''angular'', ''vue'', ''django'', ''flask'', ''fastapi'', ''spring'',
                        ''express'', ''node.js'', ''nodejs'', ''.net'', ''laravel'', ''rails'']),
      (''databases'', [''mysql'', ''postgresql'', ''mongodb'', ''redis'', ''cassandra'',
                       ''dynamodb'', ''oracle'', ''sql server'', ''sqlite'']),
      (''cloud'', [''aws'', ''azure'', ''gcp'', ''google cloud'', ''kubernetes'', ''docker'',
                   ''terraform'', ''jenkins'', ''ci/cd'']),
      (''ml_ai'', [''tensorflow'', ''pytorch'', ''scikit-learn'', ''keras'', ''pandas'',
                   ''numpy'', ''machine learning'', ''deep learning'', ''nlp'', ''computer vision'']),
      (''tools'', [''git'', ''jira'', ''confluence'', ''agile'', ''scrum'', ''rest api'',
                   ''graphql'', ''microservices''])]"

text \<open>\<^verbatim>\<open>pattern = r'\b' + re.escape(skill) + r'\b'\<close>\<close>

definition skill_pattern :: "string \<Rightarrow> regex" where
  "skill_pattern skill = Seq WordB (Seq (Lit skill) WordB)"

text \<open>
  The inner loop of \<^verbatim>\<open>extract_skills\<close> over the terms of one category, and the outer
  loop over the categories.
\<close>

fun scan_skills :: "string list \<Rightarrow> string \<Rightarrow> string list" where
  "scan_skills [] text_lower = []"
| "scan_skills (skill # skills) text_lower =
     (if re_search (skill_pattern skill) text_lower \<noteq> None
      then str_title skill # scan_skills skills text_lower
      else scan_skills skills text_lower)"

fun scan_categories :: "(string \<times> string list) list \<Rightarrow> string \<Rightarrow> (string \<times> string list) list" where
  "scan_categories [] text_lower = []"
| "scan_categories ((category, skills) # rest) text_lower =
     (let found_skills = scan_skills skills text_lower
      in if found_skills \<noteq> [] then (category, found_skills) # scan_categories rest text_lower
         else scan_categories rest text_lower)"

definition extract_skills :: "string \<Rightarrow> (string \<times> string list) list" where
  "extract_skills text = scan_categories tech_skills (str_lower text)"

definition extract_required_skills :: "string \<Rightarrow> (string \<times> string list) list" where
  "extract_required_skills text = scan_categories tech_skills (str_lower text)"

text \<open>
  The patterns of \<^verbatim>\<open>JDParser.extract_experience_required\<close>:
  \<^verbatim>\<open>(\d+)\+?\s*years?\s*of\s*experience\<close>, \<^verbatim>\<open>minimum\s+(\d+)\+?\s*years?\<close>,
  \<^verbatim>\<open>(\d+)\+?\s*years?\s*experience\s*required\<close>, \<^verbatim>\<open>at least\s+(\d+)\+?\s*years?\<close>.
\<close>

definition seqs :: "regex list \<Rightarrow> regex" where
  "seqs rs = foldr Seq (butlast rs) (last rs)"

definition years_count :: "regex list" where
  "years_count = [Group (Rep 1 Digit), Opt (One (Ch CHR ''+'')), Rep 0 Space]"





text \<open>
  \<^verbatim>\<open>ResumeParser.extract_experience\<close>, its \<^verbatim>\<open>'years'\<close> entry: the patterns
  \<^verbatim>\<open>(\d+)\+?\s*years?\s*of\s*experience\<close>, \<^verbatim>\<open>experience\s*:?\s*(\d+)\+?\s*years?\<close> and
  \<^verbatim>\<open>(\d+)\+?\s*yrs?\s*experience\<close>, each looked for with \<^verbatim>\<open>re.search\<close>. (The
  \<^verbatim>\<open>'companies'\<close> entry of the result is computed from the text alone and is not part
  of this model.)
\<close>

definition resume_patterns :: "regex list" where
  "resume_patterns =
     [seqs (years_count @ [Lit ''year'', Opt (One (Ch CHR ''s'')), Rep 0 Space, Lit ''of'',
                          Rep 0 Space, Lit ''experience'']),
      seqs ([Lit ''experience'', Rep 0 Space, Opt (One (Ch CHR '':'')), Rep 0 Space,
             Group (Rep 1 Digit), Opt (One (Ch CHR ''+'')), Rep 0 Space,
             Lit ''year'', Opt (One (Ch CHR ''s''))]),
      seqs (years_count @ [Lit ''yr'', Opt (One (Ch CHR ''s'')), Rep 0 Space, Lit ''experience''])]"



section \<open>Scoring engine: answers and the final report\<close>

text \<open>
  The dictionary \<^verbatim>\<open>score_answer\<close> returns always has the same seven keys; it is a
  record. \<^verbatim>\<open>round(x, 2)\<close> rounds the exact value of the double \<^verbatim>\<open>x\<close> to the nearest
  hundredth, ties to even, and returns the double nearest to that decimal. The weights
  \<^verbatim>\<open>0.30\<close>, \<^verbatim>\<open>0.20\<close>, \<^verbatim>\<open>0.25\<close>, \<^verbatim>\<open>0.15\<close> and \<^verbatim>\<open>0.10\<close> are the doubles nearest to these
  decimals.
\<close>

record answer_score =
  accuracy :: real
  clarity :: real
  depth :: real
  relevance :: real
  time_efficiency :: real
  overall :: real
  feedback :: string

definition round2 :: "real \<Rightarrow> real" where
  "round2 x = fl (real_of_int (round_half_even (x * 100)) / 100)"

definition structure_markers :: "string list" where
  "structure_markers = [''first'', ''second'', ''then'', ''because'', ''therefore'',
                        ''however'', ''for example'', ''in conclusion'']"

text \<open>The patterns \<^verbatim>\<open>\b[A-Z]{2,}\b|\b\w+\(\)\<close> and \<^verbatim>\<open>\b\w{4,}\b\<close>.\<close>

definition technical_term_pattern :: regex where
  "technical_term_pattern =
     Alt (Seq WordB (Seq (Rep 2 UpperAZ) WordB)) (Seq WordB (Seq (Rep 1 WordCh) (Lit ''()'')))"

definition long_word_pattern :: regex where
  "long_word_pattern = Seq WordB (Seq (Rep 4 WordCh) WordB)"

definition score_answer :: "string \<Rightarrow> string \<Rightarrow> string list \<Rightarrow> int \<Rightarrow> int \<Rightarrow> answer_score" where
  "score_answer question answer expected_topics time_taken max_time =
     (if answer = [] \<or> length (str_strip answer) < 10 then
        \<lparr>accuracy = 0, clarity = 0, depth = 0, relevance = 0, time_efficiency = 0, overall = 0,
         feedback = ''Answer is too short or empty.''\<rparr>
      else
        let answer_lower = str_lower answer;
            word_count = length (str_split answer);
            topics_covered = length (filter (\<lambda>topic. contains (str_lower topic) answer_lower) expected_topics);
            accuracy = min 100 (fl (fl (real topics_covered / real (max (length expected_topics) 1)) * 100));
            has_structure = list_ex (\<lambda>m. contains m answer_lower) structure_markers;
            clarity = min 100 (fl (fl (fl (real word_count / 50) * 50) + (if has_structure then 50 else 0)));
            technical_terms = length (re_findall technical_term_pattern answer);
            depth = min 100 (fl (fl (fl (real word_count / 100) * 70) + real (technical_terms * 5)));
            question_words = set (map snd (re_findall long_word_pattern (str_lower question)));
            answer_words = set (map snd (re_findall long_word_pattern answer_lower));
            overlap = card (question_words \<inter> answer_words);
            relevance = min 100 (fl (fl (real overlap / real (max (card question_words) 1)) * 100));
            time_efficiency = real_of_int (calculate_time_score time_taken max_time);
            overall = fl (fl (fl (fl (fl (accuracy * fl (30 / 100)) + fl (clarity * fl (20 / 100)))
                                  + fl (depth * fl (25 / 100)))
                              + fl (relevance * fl (15 / 100)))
                          + fl (time_efficiency * fl (10 / 100)));
            feedback = ''Covered '' @ show_nat topics_covered @ ''/'' @ show_nat (length expected_topics)
                       @ '' expected topics with a '' @ (if has_structure then ''clear'' else ''basic'')
                       @ '' explanation.''
        in \<lparr>accuracy = round2 accuracy, clarity = round2 clarity, depth = round2 depth,
            relevance = round2 relevance, time_efficiency = round2 time_efficiency,
            overall = round2 overall, feedback = feedback\<rparr>)"

text \<open>
  \<^verbatim>\<open>calculate_final_score\<close>. \<^verbatim>\<open>avg_scores\<close> is a dictionary keyed by the five
  weighted metrics, in the order of \<^verbatim>\<open>self.weights\<close>, and then \<^verbatim>\<open>'overall'\<close>. The
  report of an empty session has no \<^verbatim>\<open>'total_questions'\<close> entry.
\<close>

definition weight_metrics :: "string list" where
  "weight_metrics = [''accuracy'', ''clarity'', ''depth'', ''relevance'', ''time_efficiency'']"

definition score_get :: "answer_score \<Rightarrow> string \<Rightarrow> real option" where
  "score_get s metric =
     (if metric = ''accuracy'' then Some (accuracy s)
      else if metric = ''clarity'' then Some (clarity s)
      else if metric = ''depth'' then Some (depth s)
      else if metric = ''relevance'' then Some (relevance s)
      else if metric = ''time_efficiency'' then Some (time_efficiency s)
      else if metric = ''overall'' then Some (overall s)
      else None)"

record final_report =
  final_score :: real
  skill_breakdown :: "(string \<times> real) list"
  strengths :: "string list"
  weaknesses :: "string list"
  recommendation :: string
  hiring_readiness :: string
  total_questions :: "nat option"

definition metric_average :: "(real list \<Rightarrow> real) \<Rightarrow> answer_score list \<Rightarrow> string \<Rightarrow> real" where
  "metric_average py_sum all_scores metric =
     (let values = List.map_filter (\<lambda>s. score_get s metric) all_scores
      in if values \<noteq> [] then fl (py_sum values / real (length values)) else 0)"

definition average_scores :: "(real list \<Rightarrow> real) \<Rightarrow> answer_score list \<Rightarrow> (string \<times> real) list" where
  "average_scores py_sum all_scores =
     map (\<lambda>metric. (metric, metric_average py_sum all_scores metric)) (weight_metrics @ [''overall''])"

definition metric_label :: "string \<Rightarrow> string" where
  "metric_label metric = str_title (replace_char CHR ''_'' CHR '' '' metric)"

definition calculate_final_score :: "(real list \<Rightarrow> real) \<Rightarrow> answer_score list \<Rightarrow> final_report" where
  "calculate_final_score py_sum all_scores =
     (if all_scores = [] then
        \<lparr>final_score = 0, skill_breakdown = [], strengths = [], weaknesses = [],
         recommendation = ''Unable to assess - no answers provided'',
         hiring_readiness = ''NOT RECOMMENDED'', total_questions = None\<rparr>
      else
        let avg_scores = average_scores py_sum all_scores;
            strengths = map (\<lambda>(metric, score). metric_label metric)
                          (filter (\<lambda>(metric, score). metric \<noteq> ''overall'' \<and> score \<ge> 75) avg_scores);
            weaknesses = map (\<lambda>(metric, score). metric_label metric)
                          (filter (\<lambda>(metric, score). metric \<noteq> ''overall'' \<and> score < 50) avg_scores);
            final_score = (case map_of avg_scores ''overall'' of Some v \<Rightarrow> v | None \<Rightarrow> 0);
            verdict =
              (if final_score \<ge> 80 then (''Excellent - Ready for interviews'', ''HIGHLY RECOMMENDED'')
               else if final_score \<ge> 65 then (''Good - Minor improvements needed'', ''RECOMMENDED'')
               else if final_score \<ge> 50 then (''Fair - Needs practice'', ''CONDITIONAL'')
               else (''Needs significant improvement'', ''NOT RECOMMENDED''))
        in \<lparr>final_score = round2 final_score,
            skill_breakdown = map (\<lambda>(k, v). (k, round2 v)) avg_scores,
            strengths = (if strengths \<noteq> [] then strengths else [''None identified'']),
            weaknesses = (if weaknesses \<noteq> [] then weaknesses else [''None identified'']),
            recommendation = fst verdict,
            hiring_readiness = snd verdict,
            total_questions = Some (length all_scores)\<rparr>)"

section \<open>Interview engine: question generation\<close>

datatype py_error = KeyError | IndexError

text \<open>
  \<^verbatim>\<open>QUESTION_BANK\<close>: difficulty, then question type, then two templates. The apostrophe
  of the second easy scenario-based template is the character U+2019, written here as
  its three UTF-8 bytes.
\<close>

definition QUESTION_BANK :: "(string \<times> (string \<times> string list) list) list" where
  "QUESTION_BANK =
     [(''easy'',
        [(''technical'', [''What is {skill} and where have you used it?'',
                          ''Explain basic features of {skill}.'']),
         (''conceptual'', [''What problem does {skill} solve?'',
                           ''Explain core concepts of {skill}.'']),
         (''behavioral'', [''Tell me about a project you enjoyed working on.'',
                           ''How do you approach learning a new technology?'']),
         (''scenario-based'', [''How would you debug a simple error in your application?'',
                               ''What steps do you take when your code doesn''
                                 @ [CHR 0xE2, CHR 0x80, CHR 0x99] @ ''t work?''])]),
      (''medium'',
        [(''technical'', [''How would you optimize performance in a {skill} project?'',
                          ''Explain common challenges you faced while using {skill}.'']),
         (''conceptual'', [''Compare {skill} with an alternative technology.'',
                           ''Explain trade-offs involved when using {skill}.'']),
         (''behavioral'', [''Describe a challenging project and how you handled it.'',
                           ''Tell me about a time you worked under pressure.'']),
         (''scenario-based'', [''How would you design a scalable web application?'',
                               ''How would you handle a production bug reported by users?''])]),
      (''hard'',
        [(''technical'', [''Design a scalable system using {skill} for millions of users.'',
                          ''How would you improve fault tolerance in a {skill} system?'']),
         (''conceptual'', [''Explain internal architecture or algorithms behind {skill}.'',
                           ''Discuss limitations of {skill} in large-scale systems.'']),
         (''behavioral'', [''Tell me about a critical technical decision you made.'',
                           ''How do you balance speed vs quality in deadlines?'']),
         (''scenario-based'', [''A production system goes down suddenly. Walk me through your response.'',
                               ''How would you redesign a legacy system for scalability?''])])]"

text \<open>
  \<^verbatim>\<open>template.format(skill=skill)\<close> on a template whose only braces are those of the
  replacement field \<^verbatim>\<open>{skill}\<close>: every occurrence of the field is replaced. The counter
  says how many characters of a field just replaced are still to be passed over.
\<close>

fun format_from :: "nat \<Rightarrow> string \<Rightarrow> string \<Rightarrow> string" where
  "format_from skip [] skill = []"
| "format_from (Suc skip) (c # cs) skill = format_from skip cs skill"
| "format_from 0 (c # cs) skill =
     (if starts_with ''{skill}'' (c # cs) then skill @ format_from 6 cs skill
      else c # format_from 0 cs skill)"

definition format_skill :: "string \<Rightarrow> string \<Rightarrow> string" where
  "format_skill template skill = format_from 0 template skill"

text \<open>
  \<^verbatim>\<open>random.choice(seq)\<close> returns \<^verbatim>\<open>seq[i]\<close> for a random index \<^verbatim>\<open>i\<close> below the length;
  the random source is a parameter: the draw \<^verbatim>\<open>r\<close> is reduced modulo the length.
\<close>

definition random_choice :: "nat \<Rightarrow> 'a list \<Rightarrow> py_error + 'a" where
  "random_choice r seq = (if seq = [] then Inl IndexError else Inr (seq ! (r mod length seq)))"

definition dict_get :: "('k \<times> 'v) list \<Rightarrow> 'k \<Rightarrow> py_error + 'v" where
  "dict_get d k = (case map_of d k of None \<Rightarrow> Inl KeyError | Some v \<Rightarrow> Inr v)"

text \<open>
  \<^verbatim>\<open>generate_question\<close> reads the \<^verbatim>\<open>'skills'\<close> entry of the resume data and the
  \<^verbatim>\<open>'required_skills'\<close> entry of the job-description data, both dictionaries from a
  category to a list of skills. \<^verbatim>\<open>list(set(...))\<close> removes duplicates and fixes some
  order that the language does not specify; \<^const>\<open>remdups\<close> is one such order, and the
  draw \<^verbatim>\<open>r1\<close> is arbitrary. The argument \<^verbatim>\<open>previous_qa\<close> is never read.
\<close>

text \<open>\<^verbatim>\<open>self.QUESTION_BANK[difficulty][question_type]\<close>\<close>

definition bank_templates :: "string \<Rightarrow> string \<Rightarrow> py_error + string list" where
  "bank_templates difficulty question_type =
     (case dict_get QUESTION_BANK difficulty of
        Inl e \<Rightarrow> Inl e
      | Inr by_type \<Rightarrow> dict_get by_type question_type)"

definition generate_question ::
  "(string \<times> string list) list \<Rightarrow> (string \<times> string list) list \<Rightarrow> string \<Rightarrow> string \<Rightarrow>
   nat \<Rightarrow> nat \<Rightarrow> py_error + (string \<times> string list)" where
  "generate_question resume_skills_dict jd_skills_dict difficulty question_type r1 r2 =
     (let resume_skills = concat (map snd resume_skills_dict);
          jd_skills = concat (map snd jd_skills_dict);
          combined_skills = remdups (resume_skills @ jd_skills);
          skill = (if combined_skills \<noteq> [] then combined_skills ! (r1 mod length combined_skills)
                   else ''programming'')
      in case bank_templates difficulty question_type of
           Inl e \<Rightarrow> Inl e
         | Inr templates \<Rightarrow>
             (case random_choice r2 templates of
                Inl e \<Rightarrow> Inl e
              | Inr question_template \<Rightarrow>
                  Inr (format_skill question_template skill,
                       [skill, question_type, difficulty])))"

definition get_next_question_type :: "engine \<Rightarrow> string" where
  "get_next_question_type self =
     question_types ! nat (question_count self mod int (length question_types))"

record question_data =
  question_number :: int
  question :: string
  expected_topics :: "string list"
  difficulty :: string
  question_type :: string
  max_questions_shown :: int
  time_limit :: int

text \<open>
  \<^verbatim>\<open>conduct_interview\<close> increments the counter after the question has been generated;
  an exception of \<^verbatim>\<open>generate_question\<close> leaves the engine as it was.
\<close>

definition conduct_interview ::
  "engine \<Rightarrow> (string \<times> string list) list \<Rightarrow> (string \<times> string list) list \<Rightarrow> nat \<Rightarrow> nat \<Rightarrow>
   py_error + (engine \<times> question_data)" where
  "conduct_interview self resume_skills_dict jd_skills_dict r1 r2 =
     (let qtype = get_next_question_type self
      in case generate_question resume_skills_dict jd_skills_dict (current_difficulty self) qtype r1 r2 of
           Inl e \<Rightarrow> Inl e
         | Inr (q, topics) \<Rightarrow>
             (let self' = self\<lparr>question_count := question_count self + 1\<rparr>
              in Inr (self',
                      \<lparr>question_number = question_count self', question = q, expected_topics = topics,
                       difficulty = current_difficulty self', question_type = qtype,
                       max_questions_shown = max_questions self', time_limit = 60\<rparr>)))"

section \<open>The session endpoints\<close>

text \<open>
  \<^verbatim>\<open>SessionData\<close> (main.py), for one session identifier. Of the parsed resume and job
  description the engine reads the skill dictionaries only; \<^verbatim>\<open>None\<close> before the upload.
  \<^verbatim>\<open>interview_engine\<close> and \<^verbatim>\<open>scoring_engine\<close> are set together by
  \<^verbatim>\<open>start_interview\<close>, and the scoring engine has no mutable state, so one field stands
  for both.
\<close>

record session =
  resume_data :: "(string \<times> string list) list option"
  jd_data :: "(string \<times> string list) list option"
  interview_engine :: "engine option"
  questions_asked :: "question_data list"
  answers_given :: "(int \<times> string \<times> int) list"
  scores :: "answer_score list"

datatype response =
    HTTPError nat string
  | FirstQuestion question_data
  | InterviewComplete answer_score final_report "string option" bool
  | NextQuestion answer_score question_data bool

definition new_session :: session where
  "new_session = \<lparr>resume_data = None, jd_data = None, interview_engine = None,
                   questions_asked = [], answers_given = [], scores = []\<rparr>"

text \<open>
  \<^verbatim>\<open>start_interview\<close>: the engines are created before the first question is asked for;
  an exception is answered with status 500.
\<close>

definition start_interview :: "session \<Rightarrow> nat \<Rightarrow> nat \<Rightarrow> session \<times> response" where
  "start_interview session r1 r2 =
     (case (resume_data session, jd_data session) of
        (Some resume, Some jd) \<Rightarrow>
          (let started = session\<lparr>interview_engine := Some new_engine\<rparr>
           in case conduct_interview new_engine resume jd r1 r2 of
                Inl e \<Rightarrow> (started, HTTPError 500 ''Error starting interview'')
              | Inr (eng, question_data) \<Rightarrow>
                  (started\<lparr>interview_engine := Some eng,
                           questions_asked := questions_asked session @ [question_data]\<rparr>,
                   FirstQuestion question_data))
      | _ \<Rightarrow> (session, HTTPError 400 ''Resume and JD must be uploaded before starting interview''))"

text \<open>
  \<^verbatim>\<open>submit_answer\<close>: the answer is scored and stored, then the early-termination test
  and the maximum-question test are evaluated, and the branches are taken in that order.
\<close>

definition submit_answer ::
  "(real list \<Rightarrow> real) \<Rightarrow> session \<Rightarrow> string \<Rightarrow> int \<Rightarrow> nat \<Rightarrow> nat \<Rightarrow> session \<times> response" where
  "submit_answer py_sum session answer time_taken r1 r2 =
     (case interview_engine session of
        None \<Rightarrow> (session, HTTPError 400 ''Interview not started'')
      | Some eng \<Rightarrow>
          if questions_asked session = [] then (session, HTTPError 400 ''No question to answer'')
          else
            let current_question = last (questions_asked session);
                score = score_answer (question current_question) answer
                          (expected_topics current_question) time_taken 60;
                stored = session\<lparr>answers_given := answers_given session @
                                    [(question_number current_question, answer, time_taken)],
                                  scores := scores session @ [score]\<rparr>;
                recent_overall_scores = map overall (scores stored);
                should_terminate = should_terminate_early py_sum recent_overall_scores;
                max_questions_reached = (question_count eng \<ge> max_questions eng)
            in if should_terminate then
                 (stored, InterviewComplete score (calculate_final_score py_sum (scores stored))
                            (Some ''Performance below threshold'') True)
               else if max_questions_reached then
                 (stored, InterviewComplete score (calculate_final_score py_sum (scores stored)) None False)
               else
                 let adjusted = adjust_difficulty py_sum eng recent_overall_scores;
                     new_difficulty = current_difficulty adjusted
                 in case (resume_data session, jd_data session) of
                      (Some resume, Some jd) \<Rightarrow>
                        (case conduct_interview adjusted resume jd r1 r2 of
                           Inl e \<Rightarrow> (stored\<lparr>interview_engine := Some adjusted\<rparr>,
                                     HTTPError 500 ''Error processing answer'')
                         | Inr (eng', next_question) \<Rightarrow>
                             (stored\<lparr>interview_engine := Some eng',
                                     questions_asked := questions_asked session @ [next_question]\<rparr>,
                              NextQuestion score next_question
                                (new_difficulty \<noteq> difficulty current_question)))
                    | _ \<Rightarrow> (stored\<lparr>interview_engine := Some adjusted\<rparr>,
                            HTTPError 500 ''Error processing answer''))"

text \<open>
  \<^verbatim>\<open>upload_resume\<close> creates the session: a fresh \<^verbatim>\<open>SessionData\<close> that holds the parsed
  resume. The other endpoints are a client's requests to that session; \<^verbatim>\<open>analyze-jd\<close>
  stores the parsed job description.
\<close>

definition upload_resume :: "(string \<times> string list) list \<Rightarrow> session" where
  "upload_resume skills = new_session\<lparr>resume_data := Some skills\<rparr>"

datatype request =
    AnalyzeJD "(string \<times> string list) list"
  | StartInterview nat nat
  | SubmitAnswer string int nat nat

fun handle :: "(real list \<Rightarrow> real) \<Rightarrow> session \<Rightarrow> request \<Rightarrow> session" where
  "handle py_sum session (AnalyzeJD skills) =
     (if resume_data session = None then session else session\<lparr>jd_data := Some skills\<rparr>)"
| "handle py_sum session (StartInterview r1 r2) = fst (start_interview session r1 r2)"
| "handle py_sum session (SubmitAnswer answer time_taken r1 r2) =
     fst (submit_answer py_sum session answer time_taken r1 r2)"

fun run :: "(real list \<Rightarrow> real) \<Rightarrow> session \<Rightarrow> request list \<Rightarrow> session" where
  "run py_sum session [] = session"
| "run py_sum session (req # reqs) = run py_sum (handle py_sum session req) reqs"

section \<open>Reference notions for the properties\<close>

text \<open>
  The arithmetic mean of a list, the mean as Python computes it in double precision
  (\<^verbatim>\<open>sum(xs) / len(xs)\<close>), and the aggregation that the description of the session
  aggregator gives: the computed mean of each metric over all answers, the metrics named
  as strengths and as weaknesses, and the verdict by the thresholds 80, 65 and 50 on the
  computed mean of the overall scores. The figures of the report are rounded to two
  decimals; every decision is taken on the computed means themselves.
\<close>

definition mean :: "real list \<Rightarrow> real" where
  "mean xs = sum_list xs / real (length xs)"




text \<open>
  The number of replacement fields \<^verbatim>\<open>{skill}\<close> in a template, the skills a question can
  be about, and the check that an entry of the question bank has two templates with a
  given number of fields each.
\<close>

fun count_fields :: "string \<Rightarrow> nat" where
  "count_fields [] = 0"
| "count_fields (c # cs) = (if starts_with ''{skill}'' (c # cs) then 1 else 0) + count_fields cs"

definition skill_pool :: "(string \<times> string list) list \<Rightarrow> (string \<times> string list) list \<Rightarrow> string list" where
  "skill_pool rs js = remdups (concat (map snd rs) @ concat (map snd js))"

definition bank_entry_ok :: "string \<Rightarrow> string \<Rightarrow> nat \<Rightarrow> bool" where
  "bank_entry_ok d qt k =
     (case bank_templates d qt of
        Inl e \<Rightarrow> False
      | Inr templates \<Rightarrow> length templates = 2 \<and> list_all (\<lambda>t. count_fields t = k) templates)"

text \<open>
  The bound on the question counter as a property of a session, and an example sequence
  of requests: a job description, the start of the interview and one answer.
\<close>

definition within_limit :: "session \<Rightarrow> bool" where
  "within_limit s =
     (case interview_engine s of
        None \<Rightarrow> True
      | Some e \<Rightarrow> question_count e \<le> max_questions e \<and> max_questions e = 10)"

definition example_requests :: "request list" where
  "example_requests =
     [AnalyzeJD [(''tools'', [''Git''])], StartInterview 0 0, SubmitAnswer ''no idea'' 5 1 1]"


definition resume_captured_years :: "string \<Rightarrow> nat list" where
  "resume_captured_years text =
     concat (map (\<lambda>p. map (\<lambda>m. int_of_digits (group1 (fst m))) (re_findall p (str_lower text)))
               resume_patterns)"


section \<open>Properties of the adaptive difficulty chain\<close>

text \<open>
  Claim C1, as stated, fails: the mean that the code compares with 75 and 40 is computed
  in double precision. The arithmetic mean of the doubles nearest to 92.29 and 57.71 lies
  above 75, the mean computed from them is 75.0, and a medium difficulty stays medium;
  the arithmetic mean of the doubles nearest to 55.51 and 24.49 lies below 40, the mean
  computed from them is 40.0, and a medium difficulty stays medium.
\<close>

theorem adjust_difficulty_counterexample:
  "75 < mean [fl (9229 / 100), fl (5771 / 100)]
   \<and> current_difficulty
        (adjust_difficulty float_sum (new_engine\<lparr>current_difficulty := ''medium''\<rparr>)
           [fl (9229 / 100), fl (5771 / 100)]) = ''medium''
   \<and> mean [fl (5551 / 100), fl (2449 / 100)] < 40
   \<and> current_difficulty
        (adjust_difficulty float_sum (new_engine\<lparr>current_difficulty := ''medium''\<rparr>)
           [fl (5551 / 100), fl (2449 / 100)]) = ''medium''"
  by code_simp



section \<open>Properties of the time-efficiency score\<close>

lemma time_score_60_unfold:
  "calculate_time_score s 60 =
     (if s \<le> 0 then 0
      else if 36 \<le> s \<and> s \<le> 48 then 100
      else if s < 36 then py_int ((real_of_int s / 36) * 100)
      else if s \<le> 60 then py_int (100 - ((real_of_int s - 48) / (60 - 48)) * 20)
      else max 0 (50 - py_int (real_of_int (s - 60) / 10)))"
proof -
  have a: "real_of_int 60 * (6 / 10) = 36" by simp
  have b: "real_of_int 60 * (8 / 10) = 48" by simp
  have c: "(36 \<le> real_of_int s) = (36 \<le> s)" by linarith
  have d: "(real_of_int s \<le> 48) = (s \<le> 48)" by linarith
  have e: "(real_of_int s < 36) = (s < 36)" by linarith
  show ?thesis
    unfolding calculate_time_score_def Let_def a b c d e by simp
qed

lemma py_int_ramp: "py_int ((real_of_int s / 36) * 100) = (if 0 \<le> s then (100 * s) div 36 else - ((100 * (- s)) div 36))"
proof -
  have eq: "(real_of_int s / 36) * 100 = real_of_int (100 * s) / real_of_int 36" by simp
  show ?thesis
  proof (cases "0 \<le> s")
    case True
    then have "0 \<le> (real_of_int s / 36) * 100" by simp
    then have "py_int ((real_of_int s / 36) * 100) = \<lfloor>real_of_int (100 * s) / real_of_int 36\<rfloor>"
      unfolding py_int_def eq by simp
    also have "\<dots> = (100 * s) div 36" by (rule floor_divide_of_int_eq)
    finally show ?thesis using True by simp
  next
    case False
    then have neg: "\<not> 0 \<le> (real_of_int s / 36) * 100" by simp
    have "py_int ((real_of_int s / 36) * 100) = \<lceil>real_of_int (100 * s) / real_of_int 36\<rceil>"
      using neg unfolding py_int_def eq by simp
    also have "\<dots> = - \<lfloor>real_of_int (100 * (- s)) / real_of_int 36\<rfloor>"
      by (simp add: ceiling_def)
    also have "\<dots> = - ((100 * (- s)) div 36)" by (simp only: floor_divide_of_int_eq)
    finally show ?thesis using False by simp
  qed
qed


lemma py_int_penalty: "48 < s \<Longrightarrow> s \<le> 60 \<Longrightarrow>
   py_int (100 - ((real_of_int s - 48) / (60 - 48)) * 20) = (2160 - 20 * s) div 12"
proof -
  assume h: "48 < s" "s \<le> 60"
  have eq: "100 - ((real_of_int s - 48) / (60 - 48)) * 20 = real_of_int (2160 - 20 * s) / real_of_int 12"
    by (simp add: field_simps)
  have "0 \<le> real_of_int (2160 - 20 * s) / real_of_int 12" using h by simp
  then have "py_int (100 - ((real_of_int s - 48) / (60 - 48)) * 20) = \<lfloor>real_of_int (2160 - 20 * s) / real_of_int 12\<rfloor>"
    unfolding py_int_def eq by simp
  also have "\<dots> = (2160 - 20 * s) div 12" by (rule floor_divide_of_int_eq)
  finally show ?thesis .
qed

lemma py_int_overtime: "60 < s \<Longrightarrow> py_int (real_of_int (s - 60) / 10) = (s - 60) div 10"
proof -
  assume h: "60 < s"
  have "0 \<le> real_of_int (s - 60) / 10" using h by simp
  then have "py_int (real_of_int (s - 60) / 10) = \<lfloor>real_of_int (s - 60) / real_of_int 10\<rfloor>"
    unfolding py_int_def by simp
  also have "\<dots> = (s - 60) div 10" by (rule floor_divide_of_int_eq)
  finally show ?thesis .
qed

lemma time_score_60_closed:
  "calculate_time_score s 60 =
     (if s \<le> 0 then 0
      else if s < 36 then (100 * s) div 36
      else if s \<le> 48 then 100
      else if s \<le> 60 then (2160 - 20 * s) div 12
      else max 0 (50 - (s - 60) div 10))"
proof -
  consider "s \<le> 0" | "0 < s" "s < 36" | "36 \<le> s" "s \<le> 48" | "48 < s" "s \<le> 60" | "60 < s"
    by linarith
  then show ?thesis
  proof cases
    case 1 then show ?thesis by (simp only: time_score_60_unfold if_True)
  next
    case 2
    then have "calculate_time_score s 60 = py_int ((real_of_int s / 36) * 100)"
      by (simp only: time_score_60_unfold) simp
    then show ?thesis using 2 by (simp only: py_int_ramp) simp
  next
    case 3 then show ?thesis by (simp only: time_score_60_unfold) simp
  next
    case 4
    then have "calculate_time_score s 60 = py_int (100 - ((real_of_int s - 48) / (60 - 48)) * 20)"
      by (simp only: time_score_60_unfold) simp
    then show ?thesis using 4 by (simp only: py_int_penalty) simp
  next
    case 5
    then have "calculate_time_score s 60 = max 0 (50 - py_int (real_of_int (s - 60) / 10))"
      by (simp only: time_score_60_unfold) simp
    then show ?thesis using 5 by (simp only: py_int_overtime) simp
  qed
qed


lemma time_score_60_nonneg: "0 \<le> calculate_time_score s 60"
  unfolding time_score_60_closed by (simp add: pos_imp_zdiv_nonneg_iff)

lemma ramp_below_100: "0 < s \<Longrightarrow> s < 36 \<Longrightarrow> (100 * s) div 36 \<le> (97::int)"
proof -
  assume "0 < s" "s < 36"
  then have "100 * s \<le> 3500" by simp
  then have "(100 * s) div 36 \<le> 3500 div 36" by (rule zdiv_mono1) simp
  then show ?thesis by simp
qed

lemma time_score_60_mono_up: "0 \<le> a \<Longrightarrow> a \<le> b \<Longrightarrow> b \<le> 36 \<Longrightarrow> calculate_time_score a 60 \<le> calculate_time_score b 60"
proof -
  assume h: "0 \<le> a" "a \<le> b" "b \<le> 36"
  consider "a = 0" | "0 < a" "b < 36" | "0 < a" "b = 36" using h by linarith
  then show ?thesis
  proof cases
    case 1 then show ?thesis using time_score_60_nonneg [of b] by (simp add: time_score_60_closed)
  next
    case 2
    have "(100 * a) div 36 \<le> (100 * b) div 36" using h by (intro zdiv_mono1) simp_all
    then show ?thesis using 2 h by (simp add: time_score_60_closed)
  next
    case 3
    then show ?thesis using h ramp_below_100 [of a] by (cases "a < 36") (auto simp add: time_score_60_closed)
  qed
qed

lemma penalty_bounds: "48 < s \<Longrightarrow> s \<le> 60 \<Longrightarrow> 80 \<le> (2160 - 20 * s) div 12 \<and> (2160 - 20 * s) div 12 \<le> (98::int)"
proof -
  assume h: "48 < s" "s \<le> 60"
  have "(960::int) div 12 \<le> (2160 - 20 * s) div 12" using h by (intro zdiv_mono1) simp_all
  moreover have "(2160 - 20 * s) div 12 \<le> (1180::int) div 12" using h by (intro zdiv_mono1) simp_all
  ultimately show ?thesis by simp
qed

lemma overtime_le_50: "60 < s \<Longrightarrow> max 0 (50 - (s - 60) div 10) \<le> (50::int)"
  by (simp add: pos_imp_zdiv_nonneg_iff)

lemma time_score_60_mono_down: "48 \<le> a \<Longrightarrow> a \<le> b \<Longrightarrow> calculate_time_score b 60 \<le> calculate_time_score a 60"
proof -
  assume h: "48 \<le> a" "a \<le> b"
  consider "a = 48" | "48 < a" "b \<le> 60" | "48 < a" "a \<le> 60" "60 < b" | "60 < a" using h by linarith
  then show ?thesis
  proof cases
    case 1
    consider "b = 48" | "48 < b" "b \<le> 60" | "60 < b" using h 1 by linarith
    then show ?thesis
    proof cases
      case 1 then show ?thesis using \<open>a = 48\<close> by simp
    next
      case 2 then show ?thesis using \<open>a = 48\<close> penalty_bounds [of b] by (simp add: time_score_60_closed)
    next
      case 3 then show ?thesis using \<open>a = 48\<close> overtime_le_50 [of b] by (simp add: time_score_60_closed)
    qed
  next
    case 2
    have "(2160 - 20 * b) div 12 \<le> (2160 - 20 * a) div 12" using h by (intro zdiv_mono1) simp_all
    then show ?thesis using 2 h by (simp add: time_score_60_closed)
  next
    case 3
    then show ?thesis using penalty_bounds [of a] overtime_le_50 [of b] by (simp add: time_score_60_closed)
  next
    case 4
    have "(a - 60) div 10 \<le> (b - 60) div 10" using h by (intro zdiv_mono1) simp_all
    then show ?thesis using 4 h by (simp add: time_score_60_closed)
  qed
qed

lemma time_score_60_full: "(calculate_time_score s 60 = 100) = (36 \<le> s \<and> s \<le> 48)"
proof -
  consider "s \<le> 0" | "0 < s" "s < 36" | "36 \<le> s" "s \<le> 48" | "48 < s" "s \<le> 60" | "60 < s"
    by linarith
  then show ?thesis
  proof cases
    case 1 then show ?thesis by (simp add: time_score_60_closed)
  next
    case 2 then show ?thesis using ramp_below_100 [of s] by (simp add: time_score_60_closed)
  next
    case 3 then show ?thesis by (simp add: time_score_60_closed)
  next
    case 4 then show ?thesis using penalty_bounds [of s] by (simp add: time_score_60_closed)
  next
    case 5 then show ?thesis using overtime_le_50 [of s] by (simp add: time_score_60_closed)
  qed
qed


text \<open>
  Claim C2. With \<open>max_time = 60\<close> the time-efficiency score of an integer time \<open>s\<close> is
  0 for \<open>s \<le> 0\<close>; it is 100 exactly when \<open>36 \<le> s \<le> 48\<close>; below the window it is
  \<open>(s / 36) * 100\<close> truncated; above the window and up to 60 it is 100 minus
  \<open>20 * (s - 48) / (60 - 48)\<close>, truncated, hence between 80 and 100; beyond 60 it is
  \<open>max 0 (50 - (s - 60) / 10)\<close> with the quotient truncated; and it is non-decreasing
  on \<open>[0, 36]\<close> and non-increasing from 48 on.
\<close>

theorem time_score_60:
  "(s \<le> 0 \<longrightarrow> calculate_time_score s 60 = 0)
   \<and> ((calculate_time_score s 60 = 100) = (36 \<le> s \<and> s \<le> 48))
   \<and> (0 < s \<and> s < 36 \<longrightarrow>
        calculate_time_score s 60 = py_int ((real_of_int s / 36) * 100)
        \<and> calculate_time_score s 60 = (100 * s) div 36)
   \<and> (48 < s \<and> s \<le> 60 \<longrightarrow>
        calculate_time_score s 60 = py_int (100 - ((real_of_int s - 48) / (60 - 48)) * 20)
        \<and> 100 - 20 \<le> calculate_time_score s 60 \<and> calculate_time_score s 60 < 100)
   \<and> (60 < s \<longrightarrow>
        calculate_time_score s 60 = max 0 (50 - py_int (real_of_int (s - 60) / 10))
        \<and> calculate_time_score s 60 = max 0 (50 - (s - 60) div 10))
   \<and> (0 \<le> a \<and> a \<le> b \<and> b \<le> 36 \<longrightarrow> calculate_time_score a 60 \<le> calculate_time_score b 60)
   \<and> (48 \<le> a \<and> a \<le> b \<longrightarrow> calculate_time_score b 60 \<le> calculate_time_score a 60)"
proof -
  have zero: "s \<le> 0 \<longrightarrow> calculate_time_score s 60 = 0"
    by (simp add: time_score_60_closed)
  have ramp: "0 < s \<and> s < 36 \<longrightarrow>
        calculate_time_score s 60 = py_int ((real_of_int s / 36) * 100)
        \<and> calculate_time_score s 60 = (100 * s) div 36"
    by (simp only: py_int_ramp) (simp add: time_score_60_closed)
  have pen: "48 < s \<and> s \<le> 60 \<longrightarrow>
        calculate_time_score s 60 = py_int (100 - ((real_of_int s - 48) / (60 - 48)) * 20)
        \<and> 100 - 20 \<le> calculate_time_score s 60 \<and> calculate_time_score s 60 < 100"
  proof
    assume h: "48 < s \<and> s \<le> 60"
    then have v: "calculate_time_score s 60 = (2160 - 20 * s) div 12"
      by (simp add: time_score_60_closed)
    have p: "py_int (100 - ((real_of_int s - 48) / (60 - 48)) * 20) = (2160 - 20 * s) div 12"
      using h by (intro py_int_penalty) simp_all
    show "calculate_time_score s 60 = py_int (100 - ((real_of_int s - 48) / (60 - 48)) * 20)
        \<and> 100 - 20 \<le> calculate_time_score s 60 \<and> calculate_time_score s 60 < 100"
      unfolding p v using h penalty_bounds [of s] by simp
  qed
  have over: "60 < s \<longrightarrow>
        calculate_time_score s 60 = max 0 (50 - py_int (real_of_int (s - 60) / 10))
        \<and> calculate_time_score s 60 = max 0 (50 - (s - 60) div 10)"
  proof
    assume h: "60 < s"
    then have v: "calculate_time_score s 60 = max 0 (50 - (s - 60) div 10)"
      by (simp add: time_score_60_closed)
    show "calculate_time_score s 60 = max 0 (50 - py_int (real_of_int (s - 60) / 10))
        \<and> calculate_time_score s 60 = max 0 (50 - (s - 60) div 10)"
      unfolding v py_int_overtime [OF h] by simp
  qed
  have up: "0 \<le> a \<and> a \<le> b \<and> b \<le> 36 \<longrightarrow> calculate_time_score a 60 \<le> calculate_time_score b 60"
    using time_score_60_mono_up by blast
  have down: "48 \<le> a \<and> a \<le> b \<longrightarrow> calculate_time_score b 60 \<le> calculate_time_score a 60"
    using time_score_60_mono_down by blast
  from zero time_score_60_full [of s] ramp pen over up down show ?thesis by blast
qed

theorem time_score_60_witness:
  "(-3::int) \<le> 0 \<and> calculate_time_score (-3) 60 = 0
   \<and> (0::int) < 20 \<and> (20::int) < 36 \<and> calculate_time_score 20 60 = 55
   \<and> (48::int) < 50 \<and> (50::int) \<le> 60 \<and> calculate_time_score 50 60 = 96
   \<and> (60::int) < 75 \<and> calculate_time_score 75 60 = 49
   \<and> (0::int) \<le> 10 \<and> (10::int) \<le> 30 \<and> (30::int) \<le> 36
      \<and> calculate_time_score 10 60 \<le> calculate_time_score 30 60
   \<and> (48::int) \<le> 50 \<and> (50::int) \<le> 70
      \<and> calculate_time_score 70 60 \<le> calculate_time_score 50 60"
  using time_score_60 [where s = "-3" and a = 10 and b = 30]
    time_score_60 [where s = 20 and a = 50 and b = 70]
    time_score_60 [where s = 50 and a = 10 and b = 30]
    time_score_60 [where s = 75 and a = 10 and b = 30]
  by (simp add: time_score_60_closed)

section \<open>Properties of early termination\<close>




text \<open>
  Claim C3, as stated, fails: the mean of the last three scores is computed in double
  precision. The arithmetic mean of the doubles nearest to 4.64 and 63.86 and of 21.5
  lies strictly below 30, the mean computed from them is 30.0, and the interview is not
  terminated.
\<close>

theorem should_terminate_early_counterexample:
  "mean [fl (464 / 100), fl (6386 / 100), 43 / 2] < 30
   \<and> \<not> should_terminate_early float_sum [fl (464 / 100), fl (6386 / 100), 43 / 2]"
  by code_simp



section \<open>Properties of the answer scorer\<close>

text \<open>
  Claim C4. Whatever the question, the expected topics and the times, an answer that is
  empty, or whose length after trimming white space is below 10, gets the score with all
  five metrics and the overall score 0 and the feedback "Answer is too short or empty.".
\<close>

theorem score_answer_too_short:
  "ans = [] \<or> length (str_strip ans) < 10 \<Longrightarrow>
   score_answer q ans topics t mt =
     \<lparr>accuracy = 0, clarity = 0, depth = 0, relevance = 0, time_efficiency = 0, overall = 0,
      feedback = ''Answer is too short or empty.''\<rparr>"
  by (simp add: score_answer_def)

theorem score_answer_too_short_witness:
  "length (str_strip ''  I agree.   '') < 10 \<and>
   score_answer ''What is Python and where have you used it?'' ''  I agree.   ''
       [''Python'', ''technical'', ''easy''] 42 60 =
     \<lparr>accuracy = 0, clarity = 0, depth = 0, relevance = 0, time_efficiency = 0, overall = 0,
      feedback = ''Answer is too short or empty.''\<rparr>"
proof -
  have short: "length (str_strip ''  I agree.   '') < 10" by code_simp
  from score_answer_too_short [OF disjI2 [OF short]] short show ?thesis by simp
qed

section \<open>Properties of the session aggregator\<close>













section \<open>Properties of the experience extraction\<close>









section \<open>Properties of the skill extraction\<close>

lemma starts_with_append: "starts_with s (s @ post)"
  by (induction s) simp_all

lemma paths_skill_pattern:
  "paths (skill_pattern s) (g, b, a) =
     (if at_boundary b a \<and> starts_with s a \<and> at_boundary (rev s @ b) (drop (length s) a)
      then [(g, rev s @ b, drop (length s) a)] else [])"
  by (simp add: skill_pattern_def)

lemma match_at_skill_pattern:
  "(match_at (skill_pattern s) b a \<noteq> None) =
     (at_boundary b a \<and> starts_with s a \<and> at_boundary (rev s @ b) (drop (length s) a))"
  by (simp add: match_at_def paths_skill_pattern)

lemma search_from_contains:
  "search_from (skill_pattern s) b a \<noteq> None \<Longrightarrow> contains s a"
proof (induction a arbitrary: b)
  case Nil
  then have "match_at (skill_pattern s) b [] \<noteq> None" by simp
  then have "starts_with s []" by (simp only: match_at_skill_pattern)
  then show ?case by simp
next
  case (Cons x a)
  show ?case
  proof (cases "match_at (skill_pattern s) b (x # a)")
    case None
    with Cons.prems have "search_from (skill_pattern s) (x # b) a \<noteq> None" by simp
    then have "contains s a" by (rule Cons.IH)
    then show ?thesis by simp
  next
    case (Some m)
    then have "match_at (skill_pattern s) b (x # a) \<noteq> None" by simp
    then have "starts_with s (x # a)" by (simp only: match_at_skill_pattern)
    then show ?thesis by simp
  qed
qed

lemma not_contains_no_match:
  "\<not> contains s t \<Longrightarrow> re_search (skill_pattern s) t = None"
  unfolding re_search_def using search_from_contains by blast

lemma no_boundary_after:
  assumes "s \<noteq> []" "\<not> is_word (last s)" "post = [] \<or> \<not> is_word (hd post)"
  shows "\<not> at_boundary (rev s @ b) post"
proof -
  from assms(1) obtain c cs where r: "rev s = c # cs" by (cases "rev s") auto
  then have "c = last s" using assms(1) by (metis last_rev list.sel(1) rev_rev_ident hd_rev)
  with assms(2) have "\<not> is_word c" by simp
  with r assms(3) show ?thesis
    by (cases post) (auto simp add: at_boundary_def)
qed

lemma no_boundary_before:
  assumes "s \<noteq> []" "\<not> is_word (hd s)" "b = [] \<or> \<not> is_word (hd b)"
  shows "\<not> at_boundary b (s @ post)"
  using assms by (cases s; cases b) (auto simp add: at_boundary_def)

lemma starts_with_decomp: "starts_with s a \<Longrightarrow> a = s @ drop (length s) a"
  by (induction s a rule: starts_with.induct) simp_all

text \<open>
  What the extraction does: within a category the found terms are the vocabulary terms
  whose pattern matches, title-cased, in vocabulary order; a category without a found
  term is left out; the two parsers extract alike; only the lower-cased text matters; the
  empty text gives the empty mapping. A pattern matches exactly where the term occurs
  with a word boundary on either side, and for a term that begins and ends with a word
  character that is an occurrence with no word character next to it on either side.
\<close>

lemma scan_skills_filter:
  "scan_skills skills t =
     map str_title (filter (\<lambda>s. re_search (skill_pattern s) t \<noteq> None) skills)"
  by (induction skills) simp_all

lemma scan_categories_filter:
  "scan_categories cats t =
     filter (\<lambda>(category, found). found \<noteq> [])
       (map (\<lambda>(category, skills). (category, scan_skills skills t)) cats)"
  by (induction cats) (auto simp add: Let_def)

lemma extract_required_skills_same: "extract_required_skills text = extract_skills text"
  by (simp add: extract_required_skills_def extract_skills_def)

lemma extract_skills_case_insensitive:
  "str_lower t1 = str_lower t2 \<Longrightarrow> extract_skills t1 = extract_skills t2"
  by (simp add: extract_skills_def)

lemma extract_skills_empty: "extract_skills [] = []"
  by (simp add: extract_skills_def str_lower_def tech_skills_def not_contains_no_match)

lemma search_from_position:
  "(search_from r b a \<noteq> None) =
     (\<exists>pre post. a = pre @ post \<and> match_at r (rev pre @ b) post \<noteq> None)"
proof (induction a arbitrary: b)
  case Nil
  show ?case by simp
next
  case (Cons x a)
  show ?case
  proof (cases "match_at r b (x # a)")
    case (Some m)
    then have "x # a = [] @ (x # a) \<and> match_at r (rev [] @ b) (x # a) \<noteq> None" by simp
    then have "\<exists>pre post. x # a = pre @ post \<and> match_at r (rev pre @ b) post \<noteq> None" by blast
    with Some show ?thesis by simp
  next
    case None
    have "(\<exists>pre post. x # a = pre @ post \<and> match_at r (rev pre @ b) post \<noteq> None) =
          (\<exists>pre post. a = pre @ post \<and> match_at r (rev pre @ x # b) post \<noteq> None)"
    proof
      assume "\<exists>pre post. x # a = pre @ post \<and> match_at r (rev pre @ b) post \<noteq> None"
      then obtain pre post where p: "x # a = pre @ post" "match_at r (rev pre @ b) post \<noteq> None"
        by blast
      with None have "pre \<noteq> []" by (cases pre) auto
      with p(1) obtain pre' where pre: "pre = x # pre'" "a = pre' @ post"
        by (cases pre) auto
      with p(2) have "match_at r (rev pre' @ x # b) post \<noteq> None" by simp
      with pre show "\<exists>pre post. a = pre @ post \<and> match_at r (rev pre @ x # b) post \<noteq> None" by blast
    next
      assume "\<exists>pre post. a = pre @ post \<and> match_at r (rev pre @ x # b) post \<noteq> None"
      then obtain pre post where p: "a = pre @ post" "match_at r (rev pre @ x # b) post \<noteq> None"
        by blast
      then have "x # a = (x # pre) @ post \<and> match_at r (rev (x # pre) @ b) post \<noteq> None" by simp
      then show "\<exists>pre post. x # a = pre @ post \<and> match_at r (rev pre @ b) post \<noteq> None" by blast
    qed
    with None Cons.IH [of "x # b"] show ?thesis by simp
  qed
qed

lemma starts_with_iff: "starts_with s a = (\<exists>post. a = s @ post)"
  using starts_with_decomp starts_with_append by metis

lemma skill_search_iff:
  "(re_search (skill_pattern s) t \<noteq> None) =
     (\<exists>pre post. t = pre @ s @ post \<and> at_boundary (rev pre) (s @ post)
                  \<and> at_boundary (rev (pre @ s)) post)"
proof -
  have pos: "(re_search (skill_pattern s) t \<noteq> None) =
     (\<exists>pre a. t = pre @ a \<and> at_boundary (rev pre) a \<and> starts_with s a
               \<and> at_boundary (rev s @ rev pre) (drop (length s) a))"
    unfolding re_search_def search_from_position match_at_skill_pattern by simp
  show ?thesis
  proof
    assume "re_search (skill_pattern s) t \<noteq> None"
    with pos obtain pre a where p: "t = pre @ a" "at_boundary (rev pre) a" "starts_with s a"
        "at_boundary (rev s @ rev pre) (drop (length s) a)"
      by blast
    from p(3) obtain post where a: "a = s @ post" using starts_with_iff by blast
    with p have "t = pre @ s @ post \<and> at_boundary (rev pre) (s @ post)
                  \<and> at_boundary (rev (pre @ s)) post"
      by simp
    then show "\<exists>pre post. t = pre @ s @ post \<and> at_boundary (rev pre) (s @ post)
                  \<and> at_boundary (rev (pre @ s)) post"
      by blast
  next
    assume "\<exists>pre post. t = pre @ s @ post \<and> at_boundary (rev pre) (s @ post)
                  \<and> at_boundary (rev (pre @ s)) post"
    then obtain pre post where p: "t = pre @ s @ post" "at_boundary (rev pre) (s @ post)"
        "at_boundary (rev (pre @ s)) post"
      by blast
    then have "t = pre @ (s @ post) \<and> at_boundary (rev pre) (s @ post) \<and> starts_with s (s @ post)
               \<and> at_boundary (rev s @ rev pre) (drop (length s) (s @ post))"
      by (simp add: starts_with_append)
    then have "\<exists>pre a. t = pre @ a \<and> at_boundary (rev pre) a \<and> starts_with s a
               \<and> at_boundary (rev s @ rev pre) (drop (length s) a)"
      by blast
    with pos show "re_search (skill_pattern s) t \<noteq> None" by blast
  qed
qed

lemma word_edged_boundaries:
  assumes "s \<noteq> []" "is_word (hd s)" "is_word (last s)"
  shows "at_boundary (rev pre) (s @ post) = (pre = [] \<or> \<not> is_word (last pre))"
    and "at_boundary (rev (pre @ s)) post = (post = [] \<or> \<not> is_word (hd post))"
proof -
  from assms(1) obtain c cs where s: "s = c # cs" by (cases s) auto
  with assms(2) have c: "is_word c" by simp
  show "at_boundary (rev pre) (s @ post) = (pre = [] \<or> \<not> is_word (last pre))"
  proof (cases pre rule: rev_cases)
    case Nil
    with s c show ?thesis by (simp add: at_boundary_def)
  next
    case (snoc ys y)
    with s c show ?thesis by (simp add: at_boundary_def)
  qed
  from assms(1) obtain ds d where r: "s = ds @ [d]" by (cases s rule: rev_cases) auto
  with assms(3) have d: "is_word d" by simp
  show "at_boundary (rev (pre @ s)) post = (post = [] \<or> \<not> is_word (hd post))"
    using r d by (cases post) (simp_all add: at_boundary_def)
qed

lemma word_edged_search:
  assumes "s \<noteq> []" "is_word (hd s)" "is_word (last s)"
  shows "(re_search (skill_pattern s) t \<noteq> None) =
     (\<exists>pre post. t = pre @ s @ post \<and> (pre = [] \<or> \<not> is_word (last pre))
                  \<and> (post = [] \<or> \<not> is_word (hd post)))"
  unfolding skill_search_iff using word_edged_boundaries [OF assms] by simp

lemma lower_cpp_python: "str_lower ''C++ and Python'' = ''c++ and python''"
  by code_simp

lemma python_found: "re_search (skill_pattern ''python'') ''c++ and python'' \<noteq> None"
  by code_simp

lemma cpp_not_found: "re_search (skill_pattern ''c++'') ''c++ and python'' = None"
  by code_simp

lemma title_python: "str_title ''python'' = ''Python''"
  by code_simp

text \<open>
  Claim C8 asks for a whole-word match of every vocabulary term. On the text
  "C++ and Python" the term "c++" stands as a word of its own, and the extraction
  returns the language Python alone: after the last "+" there is no word boundary, so
  the pattern built for "c++" does not match.
\<close>

theorem extract_skills_misses_cpp:
  "extract_skills ''C++ and Python'' = [(''languages'', [''Python''])]"
  by (simp add: extract_skills_def lower_cpp_python tech_skills_def python_found cpp_not_found
        title_python not_contains_no_match)

lemma lower_ship: "str_lower ''We ship C++ code'' = ''we ship '' @ ''c++'' @ '' code''"
  by code_simp

lemma cpp_not_found_ship: "re_search (skill_pattern ''c++'') ''we ship c++ code'' = None"
  by code_simp

lemma extract_skills_ship: "extract_skills ''We ship C++ code'' = []"
  using lower_ship
  by (simp add: extract_skills_def tech_skills_def cpp_not_found_ship not_contains_no_match)

lemma space_delimiters: "is_space (last ''we ship '') \<and> is_space (hd '' code'')"
  by code_simp

lemma cpp_in_vocabulary:
  "(''languages'', [''python'', ''java'', ''javascript'', ''typescript'', ''c++'', ''c#'', ''ruby'',
       ''go'', ''rust'', ''php'', ''swift'', ''kotlin'', ''scala'', ''r'', ''matlab'']) \<in> set tech_skills"
  by (simp add: tech_skills_def)

text \<open>
  Claim C10. Whole-word matching by \<^verbatim>\<open>\b\<close> misses standalone occurrences: a term whose
  last character is not a word character does not match where it is followed by a
  non-word character or by the end of the text, and a term whose first character is not
  a word character does not match where it is preceded by a non-word character or by the
  start of the text; and there is a vocabulary term, "c++", and a text in which it stands
  between two spaces, for which the extraction returns nothing.
\<close>

theorem word_boundary_misses_standalone:
  "(skill \<noteq> [] \<and> \<not> is_word (last skill) \<and> (post = [] \<or> \<not> is_word (hd post)) \<longrightarrow>
      match_at (skill_pattern skill) b (skill @ post) = None)
   \<and> (skill \<noteq> [] \<and> \<not> is_word (hd skill) \<and> (b = [] \<or> \<not> is_word (hd b)) \<longrightarrow>
      match_at (skill_pattern skill) b (skill @ post) = None)
   \<and> (\<exists>category skills term text pre suf.
        (category, skills) \<in> set tech_skills \<and> term \<in> set skills
        \<and> str_lower text = pre @ term @ suf
        \<and> is_space (last pre) \<and> is_space (hd suf)
        \<and> extract_skills text = [])"
proof -
  have after: "skill \<noteq> [] \<and> \<not> is_word (last skill) \<and> (post = [] \<or> \<not> is_word (hd post)) \<longrightarrow>
      match_at (skill_pattern skill) b (skill @ post) = None"
  proof
    assume h: "skill \<noteq> [] \<and> \<not> is_word (last skill) \<and> (post = [] \<or> \<not> is_word (hd post))"
    then have "\<not> at_boundary (rev skill @ b) post" using no_boundary_after by blast
    then have "\<not> (match_at (skill_pattern skill) b (skill @ post) \<noteq> None)"
      by (simp only: match_at_skill_pattern) simp
    then show "match_at (skill_pattern skill) b (skill @ post) = None" by blast
  qed
  have before: "skill \<noteq> [] \<and> \<not> is_word (hd skill) \<and> (b = [] \<or> \<not> is_word (hd b)) \<longrightarrow>
      match_at (skill_pattern skill) b (skill @ post) = None"
  proof
    assume h: "skill \<noteq> [] \<and> \<not> is_word (hd skill) \<and> (b = [] \<or> \<not> is_word (hd b))"
    then have "\<not> at_boundary b (skill @ post)" using no_boundary_before by blast
    then have "\<not> (match_at (skill_pattern skill) b (skill @ post) \<noteq> None)"
      by (simp only: match_at_skill_pattern) simp
    then show "match_at (skill_pattern skill) b (skill @ post) = None" by blast
  qed
  have "(''languages'', [''python'', ''java'', ''javascript'', ''typescript'', ''c++'', ''c#'', ''ruby'',
       ''go'', ''rust'', ''php'', ''swift'', ''kotlin'', ''scala'', ''r'', ''matlab'']) \<in> set tech_skills
     \<and> ''c++'' \<in> set [''python'', ''java'', ''javascript'', ''typescript'', ''c++'', ''c#'', ''ruby'',
       ''go'', ''rust'', ''php'', ''swift'', ''kotlin'', ''scala'', ''r'', ''matlab'']
     \<and> str_lower ''We ship C++ code'' = ''we ship '' @ ''c++'' @ '' code''
     \<and> is_space (last ''we ship '') \<and> is_space (hd '' code'')
     \<and> extract_skills ''We ship C++ code'' = []"
    using cpp_in_vocabulary lower_ship space_delimiters extract_skills_ship by simp
  then have ex: "\<exists>category skills term text pre suf.
        (category, skills) \<in> set tech_skills \<and> term \<in> set skills
        \<and> str_lower text = pre @ term @ suf
        \<and> is_space (last pre) \<and> is_space (hd suf)
        \<and> extract_skills text = []"
    by blast
  from after before ex show ?thesis by blast
qed

theorem word_boundary_misses_standalone_witness:
  "''c++'' \<noteq> [] \<and> \<not> is_word (last ''c++'') \<and> \<not> is_word (hd '' code'')
   \<and> match_at (skill_pattern ''c++'') (rev ''we ship '') (''c++'' @ '' code'') = None
   \<and> ''.net'' \<noteq> [] \<and> \<not> is_word (hd ''.net'') \<and> \<not> is_word (hd (rev ''we ship ''))
   \<and> match_at (skill_pattern ''.net'') (rev ''we ship '') (''.net'' @ '' code'') = None"
proof -
  have c: "\<not> is_word (last ''c++'') \<and> \<not> is_word (hd '' code'')
      \<and> \<not> is_word (hd ''.net'') \<and> \<not> is_word (hd (rev ''we ship ''))"
    by code_simp
  with word_boundary_misses_standalone [of "''c++''" "'' code''" "rev ''we ship ''"]
    word_boundary_misses_standalone [of "''.net''" "'' code''" "rev ''we ship ''"]
  show ?thesis by simp
qed

section \<open>Properties of the question generator\<close>

lemma format_without_field: "count_fields t = 0 \<Longrightarrow> format_from 0 t s = t"
proof (induction t)
  case Nil
  then show ?case by simp
next
  case (Cons c cs)
  from Cons.prems have n: "\<not> starts_with ''{skill}'' (c # cs)" and z: "count_fields cs = 0"
    by (auto split: if_splits)
  from n have "format_from 0 (c # cs) s = c # format_from 0 cs s"
    by (simp only: format_from.simps if_False)
  with Cons.IH [OF z] show ?case by simp
qed

lemma count_fields_tail: "count_fields (x @ y) = 0 \<Longrightarrow> count_fields y = 0"
  by (induction x) (auto split: if_splits)

lemma count_fields_append_ge: "count_fields y \<le> count_fields (x @ y)"
  by (induction x) auto

lemma format_skip: "length x = n \<Longrightarrow> format_from n (x @ y) s = format_from 0 y s"
  by (induction x arbitrary: n) auto

lemma format_at_field:
  "format_from 0 (''{skill}'' @ post) s = s @ format_from 0 post s"
proof -
  have "format_from 0 (''{skill}'' @ post) s = s @ format_from 6 (''skill}'' @ post) s"
    by simp
  also have "format_from 6 (''skill}'' @ post) s = format_from 0 post s"
    by (rule format_skip) simp
  finally show ?thesis .
qed

lemma count_fields_at_field: "count_fields (''{skill}'' @ post) = 1 + count_fields (''skill}'' @ post)"
  by simp

lemma format_prefix:
  "count_fields (pre @ y) = count_fields y \<Longrightarrow> format_from 0 (pre @ y) s = pre @ format_from 0 y s"
proof (induction pre)
  case Nil
  then show ?case by simp
next
  case (Cons c pre)
  have ge: "count_fields y \<le> count_fields (pre @ y)" by (rule count_fields_append_ge)
  from Cons.prems have
    "(if starts_with ''{skill}'' (c # pre @ y) then 1 else 0) + count_fields (pre @ y) = count_fields y"
    by simp
  with ge have n: "\<not> starts_with ''{skill}'' (c # pre @ y)" and e: "count_fields (pre @ y) = count_fields y"
    by (auto split: if_splits)
  from n have "format_from 0 (c # pre @ y) s = c # format_from 0 (pre @ y) s"
    by (simp only: format_from.simps if_False)
  with Cons.IH [OF e] show ?case by simp
qed

lemma field_decomposition:
  "1 \<le> count_fields t \<Longrightarrow> \<exists>pre post. t = pre @ ''{skill}'' @ post"
proof (induction t)
  case Nil
  then show ?case by simp
next
  case (Cons c cs)
  show ?case
  proof (cases "starts_with ''{skill}'' (c # cs)")
    case True
    then have "c # cs = ''{skill}'' @ drop (length ''{skill}'') (c # cs)"
      by (rule starts_with_decomp)
    then have "c # cs = [] @ ''{skill}'' @ drop (length ''{skill}'') (c # cs)" by simp
    then show ?thesis by blast
  next
    case False
    with Cons.prems have "1 \<le> count_fields cs" by (simp only: count_fields.simps if_False)
    from Cons.IH [OF this] obtain pre post where "cs = pre @ ''{skill}'' @ post"
      by blast
    then have "c # cs = (c # pre) @ ''{skill}'' @ post" by simp
    then show ?thesis by blast
  qed
qed

lemma format_single_field:
  assumes "count_fields t = 1"
  shows "\<exists>pre post. t = pre @ ''{skill}'' @ post \<and> format_skill t s = pre @ s @ post"
proof -
  from assms have "1 \<le> count_fields t" by simp
  then obtain pre post where t: "t = pre @ ''{skill}'' @ post"
    using field_decomposition by blast
  have ge: "count_fields (''{skill}'' @ post) \<le> count_fields t"
    unfolding t by (rule count_fields_append_ge)
  have one: "1 \<le> count_fields (''{skill}'' @ post)"
    unfolding count_fields_at_field by simp
  from ge one assms have eq: "count_fields (''{skill}'' @ post) = 1" by simp
  then have "count_fields (''skill}'' @ post) = 0"
    unfolding count_fields_at_field by simp
  then have "count_fields post = 0" by (rule count_fields_tail)
  then have p: "format_from 0 post s = post" by (rule format_without_field)
  have "count_fields (pre @ ''{skill}'' @ post) = count_fields (''{skill}'' @ post)"
    using eq assms t by simp
  then have "format_from 0 (pre @ ''{skill}'' @ post) s = pre @ format_from 0 (''{skill}'' @ post) s"
    by (rule format_prefix)
  also have "\<dots> = pre @ s @ post" unfolding format_at_field p by simp
  finally have "format_skill t s = pre @ s @ post" unfolding format_skill_def t .
  with t show ?thesis by blast
qed



lemma bank_entries:
  "list_all (\<lambda>d. bank_entry_ok d ''technical'' 1 \<and> bank_entry_ok d ''conceptual'' 1
                \<and> bank_entry_ok d ''behavioral'' 0 \<and> bank_entry_ok d ''scenario-based'' 0)
     difficulty_levels"
  by code_simp

lemma bank_entry:
  assumes "d \<in> set difficulty_levels" "qt \<in> set question_types"
  shows "bank_entry_ok d qt (if qt = ''technical'' \<or> qt = ''conceptual'' then 1 else 0)"
proof -
  from bank_entries assms(1) have
    all: "bank_entry_ok d ''technical'' 1 \<and> bank_entry_ok d ''conceptual'' 1
                \<and> bank_entry_ok d ''behavioral'' 0 \<and> bank_entry_ok d ''scenario-based'' 0"
    by (simp add: list_all_iff)
  from assms(2) consider "qt = ''technical''" | "qt = ''conceptual''"
      | "qt = ''behavioral''" | "qt = ''scenario-based''"
    by (auto simp add: question_types_def)
  then show ?thesis using all by cases simp_all
qed

lemma bank_entry_templates:
  assumes "d \<in> set difficulty_levels" "qt \<in> set question_types"
  shows "\<exists>templates. bank_templates d qt = Inr templates \<and> length templates = 2
           \<and> (\<forall>t \<in> set templates. count_fields t = (if qt = ''technical'' \<or> qt = ''conceptual'' then 1 else 0))"
  using bank_entry [OF assms]
  by (auto simp add: bank_entry_ok_def list_all_iff split: sum.splits)

lemma generate_question_templates:
  assumes "bank_templates d qt = Inr templates" "templates \<noteq> []"
  shows "generate_question rs js d qt r1 r2 =
     Inr (format_skill (templates ! (r2 mod length templates))
            (if skill_pool rs js = [] then ''programming''
             else skill_pool rs js ! (r1 mod length (skill_pool rs js))),
          [if skill_pool rs js = [] then ''programming''
             else skill_pool rs js ! (r1 mod length (skill_pool rs js)), qt, d])"
  using assms by (simp add: generate_question_def skill_pool_def random_choice_def Let_def)


lemma skill_pool_set:
  "set (skill_pool rs js) = set (concat (map snd rs)) \<union> set (concat (map snd js))
   \<and> distinct (skill_pool rs js)"
  by (simp add: skill_pool_def)

text \<open>
  Claim C9, amended. For every resume and job-description skill dictionary and every
  difficulty and question type of the engine, \<^const>\<open>generate_question\<close> takes the skill
  from the deduplicated union of all resume and job-description skills, any of them being
  possible, and "programming" when the union is empty; it takes one of the two templates
  of the bank entry for the difficulty and the question type, either being possible; a
  technical or conceptual template has exactly one replacement field, which is replaced
  by the skill; a behavioral or scenario-based template has none and is returned as it
  is; the expected topics are the skill, the question type and the difficulty.
\<close>

theorem generate_question_spec:
  "d \<in> set difficulty_levels \<and> qt \<in> set question_types \<longrightarrow>
     (\<exists>templates skill tmpl.
        bank_templates d qt = Inr templates \<and> length templates = 2
        \<and> tmpl = templates ! (r2 mod 2) \<and> tmpl \<in> set templates
        \<and> set (skill_pool rs js) = set (concat (map snd rs)) \<union> set (concat (map snd js))
        \<and> distinct (skill_pool rs js)
        \<and> skill = (if skill_pool rs js = [] then ''programming''
                    else skill_pool rs js ! (r1 mod length (skill_pool rs js)))
        \<and> skill \<in> set (if skill_pool rs js = [] then [''programming''] else skill_pool rs js)
        \<and> generate_question rs js d qt r1 r2 = Inr (format_skill tmpl skill, [skill, qt, d])
        \<and> (if qt = ''technical'' \<or> qt = ''conceptual''
            then count_fields tmpl = 1
                 \<and> (\<exists>pre post. tmpl = pre @ ''{skill}'' @ post
                        \<and> format_skill tmpl skill = pre @ skill @ post)
            else count_fields tmpl = 0 \<and> format_skill tmpl skill = tmpl)
        \<and> (\<forall>s t. s \<in> set (if skill_pool rs js = [] then [''programming''] else skill_pool rs js)
                  \<and> t \<in> set templates \<longrightarrow>
               (\<exists>k1 k2. generate_question rs js d qt k1 k2 = Inr (format_skill t s, [s, qt, d]))))"
proof
  assume h: "d \<in> set difficulty_levels \<and> qt \<in> set question_types"
  then obtain templates where
    b: "bank_templates d qt = Inr templates" and len: "length templates = 2"
    and cnt: "\<forall>t \<in> set templates. count_fields t = (if qt = ''technical'' \<or> qt = ''conceptual'' then 1 else 0)"
    using bank_entry_templates by blast
  from len have ne: "templates \<noteq> []" by auto
  define skill where "skill = (if skill_pool rs js = [] then ''programming''
                    else skill_pool rs js ! (r1 mod length (skill_pool rs js)))"
  define tmpl where "tmpl = templates ! (r2 mod 2)"
  have tin: "tmpl \<in> set templates" unfolding tmpl_def using len by simp
  have sin: "skill \<in> set (if skill_pool rs js = [] then [''programming''] else skill_pool rs js)"
    unfolding skill_def by simp
  have gq: "generate_question rs js d qt r1 r2 = Inr (format_skill tmpl skill, [skill, qt, d])"
    unfolding skill_def tmpl_def using generate_question_templates [OF b ne, of rs js r1 r2] len by simp
  have fields: "if qt = ''technical'' \<or> qt = ''conceptual''
            then count_fields tmpl = 1
                 \<and> (\<exists>pre post. tmpl = pre @ ''{skill}'' @ post
                        \<and> format_skill tmpl skill = pre @ skill @ post)
            else count_fields tmpl = 0 \<and> format_skill tmpl skill = tmpl"
  proof (cases "qt = ''technical'' \<or> qt = ''conceptual''")
    case True
    with cnt tin have one: "count_fields tmpl = 1" by simp
    from format_single_field [OF one] one True show ?thesis by simp
  next
    case False
    with cnt tin have zero: "count_fields tmpl = 0" by simp
    from format_without_field [OF zero] zero False show ?thesis by (simp add: format_skill_def)
  qed
  have every: "\<forall>s t. s \<in> set (if skill_pool rs js = [] then [''programming''] else skill_pool rs js)
                  \<and> t \<in> set templates \<longrightarrow>
               (\<exists>k1 k2. generate_question rs js d qt k1 k2 = Inr (format_skill t s, [s, qt, d]))"
  proof (intro allI impI)
    fix s t
    assume st: "s \<in> set (if skill_pool rs js = [] then [''programming''] else skill_pool rs js)
                  \<and> t \<in> set templates"
    then obtain j where j: "j < length templates" "templates ! j = t"
      by (auto simp add: in_set_conv_nth)
    have "\<exists>i. (if skill_pool rs js = [] then ''programming''
             else skill_pool rs js ! (i mod length (skill_pool rs js))) = s"
    proof (cases "skill_pool rs js = []")
      case True
      with st show ?thesis by simp
    next
      case False
      with st obtain i where "i < length (skill_pool rs js)" "skill_pool rs js ! i = s"
        by (auto simp add: in_set_conv_nth)
      with False have "(if skill_pool rs js = [] then ''programming''
             else skill_pool rs js ! (i mod length (skill_pool rs js))) = s" by simp
      then show ?thesis by blast
    qed
    then obtain i where i: "(if skill_pool rs js = [] then ''programming''
             else skill_pool rs js ! (i mod length (skill_pool rs js))) = s" by blast
    have "generate_question rs js d qt i j = Inr (format_skill t s, [s, qt, d])"
      using generate_question_templates [OF b ne, of rs js i j] i j by simp
    then show "\<exists>k1 k2. generate_question rs js d qt k1 k2 = Inr (format_skill t s, [s, qt, d])"
      by blast
  qed
  from b len tin sin gq fields every skill_pool_set [of rs js] tmpl_def skill_def
  show "\<exists>templates skill tmpl.
        bank_templates d qt = Inr templates \<and> length templates = 2
        \<and> tmpl = templates ! (r2 mod 2) \<and> tmpl \<in> set templates
        \<and> set (skill_pool rs js) = set (concat (map snd rs)) \<union> set (concat (map snd js))
        \<and> distinct (skill_pool rs js)
        \<and> skill = (if skill_pool rs js = [] then ''programming''
                    else skill_pool rs js ! (r1 mod length (skill_pool rs js)))
        \<and> skill \<in> set (if skill_pool rs js = [] then [''programming''] else skill_pool rs js)
        \<and> generate_question rs js d qt r1 r2 = Inr (format_skill tmpl skill, [skill, qt, d])
        \<and> (if qt = ''technical'' \<or> qt = ''conceptual''
            then count_fields tmpl = 1
                 \<and> (\<exists>pre post. tmpl = pre @ ''{skill}'' @ post
                        \<and> format_skill tmpl skill = pre @ skill @ post)
            else count_fields tmpl = 0 \<and> format_skill tmpl skill = tmpl)
        \<and> (\<forall>s t. s \<in> set (if skill_pool rs js = [] then [''programming''] else skill_pool rs js)
                  \<and> t \<in> set templates \<longrightarrow>
               (\<exists>k1 k2. generate_question rs js d qt k1 k2 = Inr (format_skill t s, [s, qt, d])))"
    by blast
qed

text \<open>
  Claim C9, as stated, fails: the templates of the behavioral and scenario-based entries
  have no placeholder, and the question then does not mention the skill.
\<close>

theorem generate_question_counterexample:
  "generate_question [(''languages'', [''Python''])] [] ''easy'' ''behavioral'' 0 0 =
     Inr (''Tell me about a project you enjoyed working on.'', [''Python'', ''behavioral'', ''easy''])
   \<and> count_fields ''Tell me about a project you enjoyed working on.'' = 0"
  by code_simp

theorem generate_question_spec_witness:
  "''easy'' \<in> set difficulty_levels \<and> ''technical'' \<in> set question_types
   \<and> generate_question [(''languages'', [''Python''])] [(''tools'', [''Git''])] ''easy'' ''technical'' 1 0 =
       Inr (''What is Git and where have you used it?'', [''Git'', ''technical'', ''easy''])"
proof -
  have m: "''easy'' \<in> set difficulty_levels \<and> ''technical'' \<in> set question_types"
    by (simp add: difficulty_levels_def question_types_def)
  have v: "generate_question [(''languages'', [''Python''])] [(''tools'', [''Git''])] ''easy'' ''technical'' 1 0 =
       Inr (''What is Git and where have you used it?'', [''Git'', ''technical'', ''easy''])"
    by code_simp
  from generate_question_spec [where d = "''easy''" and qt = "''technical''" and ?r2.0 = 0
      and rs = "[(''languages'', [''Python''])]" and js = "[(''tools'', [''Git''])]" and ?r1.0 = 1] m v
  show ?thesis by blast
qed

section \<open>Properties of the session endpoints\<close>

lemma conduct_interview_engine:
  "conduct_interview e rs js r1 r2 = Inr (e', q) \<Longrightarrow>
     question_count e' = question_count e + 1 \<and> max_questions e' = max_questions e
     \<and> current_difficulty e' = current_difficulty e"
  by (auto simp add: conduct_interview_def Let_def split: sum.splits prod.splits)

lemma adjust_difficulty_counts:
  "question_count (adjust_difficulty py_sum e xs) = question_count e
   \<and> max_questions (adjust_difficulty py_sum e xs) = max_questions e"
  by (simp add: adjust_difficulty_def Let_def)

lemma start_interview_limit:
  "within_limit s \<Longrightarrow> within_limit (fst (start_interview s r1 r2))"
  by (auto simp add: start_interview_def within_limit_def new_engine_def Let_def
        split: option.splits sum.splits prod.splits dest!: conduct_interview_engine)

lemma submit_answer_limit:
  "within_limit s \<Longrightarrow> within_limit (fst (submit_answer py_sum s a t r1 r2))"
  by (auto simp add: submit_answer_def within_limit_def Let_def adjust_difficulty_counts
        split: option.splits sum.splits prod.splits dest!: conduct_interview_engine)

lemma handle_limit: "within_limit s \<Longrightarrow> within_limit (handle py_sum s req)"
  by (cases req) (simp_all add: start_interview_limit submit_answer_limit, simp_all add: within_limit_def)

lemma run_limit: "within_limit s \<Longrightarrow> within_limit (run py_sum s reqs)"
  by (induction reqs arbitrary: s) (simp_all add: handle_limit)


lemma submit_answer_branches:
  assumes e: "interview_engine s = Some e" and q: "questions_asked s \<noteq> []"
  shows "let sc = score_answer (question (last (questions_asked s))) a
                    (expected_topics (last (questions_asked s))) t 60;
             recent = map overall (scores s @ [sc]);
             out = submit_answer py_sum s a t r1 r2
         in (should_terminate_early py_sum recent \<longrightarrow>
               snd out = InterviewComplete sc (calculate_final_score py_sum (scores s @ [sc]))
                           (Some ''Performance below threshold'') True
               \<and> interview_engine (fst out) = Some e)
          \<and> (\<not> should_terminate_early py_sum recent \<and> max_questions e \<le> question_count e \<longrightarrow>
               snd out = InterviewComplete sc (calculate_final_score py_sum (scores s @ [sc])) None False
               \<and> interview_engine (fst out) = Some e)
          \<and> ((\<exists>e'. interview_engine (fst out) = Some e' \<and> question_count e' \<noteq> question_count e) \<longrightarrow>
               \<not> should_terminate_early py_sum recent \<and> question_count e < max_questions e
               \<and> (\<exists>e'. interview_engine (fst out) = Some e' \<and> question_count e' = question_count e + 1))"
  using e q
  by (auto simp add: submit_answer_def Let_def adjust_difficulty_counts
        split: option.splits sum.splits prod.splits dest!: conduct_interview_engine)

text \<open>
  Claim C5. A session is within the limit when it is created, and every sequence of
  requests (job descriptions, starts of the interview and submitted answers, in any
  order) keeps a session within it: the question counter never exceeds the maximum of
  10. When an answer is submitted to a started interview, the early-termination test
  comes first: if it holds the interview is complete with the termination reason,
  whatever the counter; if it fails and the counter has reached the maximum the
  interview is complete without a reason; and the counter changes only when both tests
  fail, that is only below the maximum, and then by exactly one.
\<close>

theorem question_count_bounded:
  "within_limit (run py_sum (upload_resume skills) reqs)
   \<and> (within_limit s \<longrightarrow> within_limit (run py_sum s reqs))
   \<and> (interview_engine s = Some e \<and> questions_asked s \<noteq> [] \<longrightarrow>
        (let sc = score_answer (question (last (questions_asked s))) a
                    (expected_topics (last (questions_asked s))) t 60;
             recent = map overall (scores s @ [sc]);
             out = submit_answer py_sum s a t r1 r2
         in (should_terminate_early py_sum recent \<longrightarrow>
               snd out = InterviewComplete sc (calculate_final_score py_sum (scores s @ [sc]))
                           (Some ''Performance below threshold'') True
               \<and> interview_engine (fst out) = Some e)
          \<and> (\<not> should_terminate_early py_sum recent \<and> max_questions e \<le> question_count e \<longrightarrow>
               snd out = InterviewComplete sc (calculate_final_score py_sum (scores s @ [sc])) None False
               \<and> interview_engine (fst out) = Some e)
          \<and> ((\<exists>e'. interview_engine (fst out) = Some e' \<and> question_count e' \<noteq> question_count e) \<longrightarrow>
               \<not> should_terminate_early py_sum recent \<and> question_count e < max_questions e
               \<and> (\<exists>e'. interview_engine (fst out) = Some e' \<and> question_count e' = question_count e + 1))))"
proof -
  have init: "within_limit (upload_resume skills)"
    by (simp add: within_limit_def upload_resume_def new_session_def)
  from run_limit [OF init, of py_sum reqs] run_limit [of s py_sum reqs]
    submit_answer_branches [of s e a t py_sum r1 r2]
  show ?thesis by blast
qed

theorem question_count_bounded_witness:
  "within_limit (upload_resume [(''languages'', [''Python''])])
   \<and> within_limit (run float_sum (upload_resume [(''languages'', [''Python''])]) example_requests)
   \<and> map_option question_count
        (interview_engine (run float_sum (upload_resume [(''languages'', [''Python''])]) example_requests)) = Some 2
   \<and> interview_engine (run float_sum (upload_resume [(''languages'', [''Python''])]) (take 2 example_requests))
       = Some (new_engine\<lparr>question_count := 1\<rparr>)
   \<and> questions_asked (run float_sum (upload_resume [(''languages'', [''Python''])]) (take 2 example_requests)) \<noteq> []
   \<and> \<not> should_terminate_early float_sum [0]
   \<and> map_option question_count
        (interview_engine (fst (submit_answer float_sum
           (run float_sum (upload_resume [(''languages'', [''Python''])]) (take 2 example_requests)) ''no idea'' 5 1 1)))
       = Some 2"
proof -
  have init: "within_limit (upload_resume [(''languages'', [''Python''])])"
    by (simp add: within_limit_def upload_resume_def new_session_def)
  have two: "map_option question_count
        (interview_engine (run float_sum (upload_resume [(''languages'', [''Python''])]) example_requests)) = Some 2"
    by code_simp
  have started: "interview_engine (run float_sum (upload_resume [(''languages'', [''Python''])]) (take 2 example_requests))
       = Some (new_engine\<lparr>question_count := 1\<rparr>)"
    by code_simp
  have asked: "questions_asked (run float_sum (upload_resume [(''languages'', [''Python''])]) (take 2 example_requests)) \<noteq> []"
    by code_simp
  have go_on: "\<not> should_terminate_early float_sum [0]"
    by (simp add: should_terminate_early_def)
  have next_q: "map_option question_count
        (interview_engine (fst (submit_answer float_sum
           (run float_sum (upload_resume [(''languages'', [''Python''])]) (take 2 example_requests)) ''no idea'' 5 1 1)))
       = Some 2"
    by code_simp
  from question_count_bounded [where s = "upload_resume [(''languages'', [''Python''])]"
      and py_sum = float_sum
      and reqs = example_requests and skills = "[(''languages'', [''Python''])]"]
    question_count_bounded [where s = "run float_sum (upload_resume [(''languages'', [''Python''])]) (take 2 example_requests)"
      and py_sum = float_sum
      and e = "new_engine\<lparr>question_count := 1\<rparr>"]
    init two started asked go_on next_q
  show ?thesis by blast
qed

end
